theory Spec2Isabelle
  imports Main
begin

section \<open>Data crossing the boundary\<close>

text \<open>
  The shim in \<^verbatim>\<open>reply.cpp\<close> forwards calls from a Go caller to the native
  \<^verbatim>\<open>unity::scopes\<close> reply objects. A Go string arrives as a pointer to a
  \<^verbatim>\<open>GoString\<close> struct holding a data pointer \<^verbatim>\<open>p\<close> and a length \<^verbatim>\<open>n\<close> (a Go string
  length is never negative, hence \<open>nat\<close>). An error leaves through a \<^verbatim>\<open>char **\<close>
  cell that receives a \<^verbatim>\<open>strdup\<close>'ed, NUL-terminated C string.
\<close>

type_synonym addr = nat

record GoString =
  str_p :: addr
  str_n :: nat

text \<open>
  The value of a \<^verbatim>\<open>char *\<close> cell: the null pointer, some pointer the caller left
  there, or a pointer to a heap buffer holding the given characters followed by the
  terminating NUL.
\<close>

datatype charp = Null | Wild addr | Heap string

text \<open>
  A thrown C++ value. \<open>StdException m\<close> is an object of a class derived from
  \<^verbatim>\<open>std::exception\<close> that was built from the message \<open>m\<close>; anything else that can
  be thrown is \<open>NonStdException\<close>.
\<close>

datatype exn = StdException string | NonStdException

text \<open>How control leaves an \<^verbatim>\<open>extern "C"\<close> function: by returning, or by an
  exception that nothing inside caught.\<close>

datatype ffi_exit = Returned | Escaped exn

text \<open>
  The memory and objects a call can see. \<open>gostrings\<close> holds the \<^verbatim>\<open>GoString\<close>
  structs (one struct per slot, so element \<open>i\<close> of an array that starts at slot \<open>a\<close>
  is slot \<open>a + i\<close>), \<open>bytes\<close> the character data they point to, \<open>charps\<close> the
  \<^verbatim>\<open>char *\<close> cells that the \<^verbatim>\<open>char **error\<close> arguments address, \<open>replies\<close> the
  reply object behind each \<^verbatim>\<open>SharedPtrData\<close> handle, and \<open>categories\<close> the
  \<^verbatim>\<open>Category\<close> handles (\<open>None\<close> while a handle is not initialised).
\<close>

record ('c, 'cat) world =
  gostrings :: "addr \<Rightarrow> GoString"
  bytes :: "addr \<Rightarrow> char"
  charps :: "addr \<Rightarrow> charp"
  replies :: "addr \<Rightarrow> 'c"
  categories :: "addr \<Rightarrow> 'cat option"

section \<open>Strings\<close>

text \<open>\<^verbatim>\<open>std::string(p, n)\<close>: the \<open>n\<close> characters that start at \<open>p\<close>, whatever they are.\<close>

definition std_string :: "('c, 'cat) world \<Rightarrow> addr \<Rightarrow> nat \<Rightarrow> string" where
  "std_string w a k = map (bytes w) [a ..< a + k]"

text \<open>
  \<^verbatim>\<open>
  static std::string from_gostring(void *str) {
      GoString *s = static_cast<GoString*>(str);
      return std::string(s->p, s->n);
  }
  \<close>
\<close>

definition from_gostring :: "('c, 'cat) world \<Rightarrow> addr \<Rightarrow> string" where
  "from_gostring w str = (let s = gostrings w str in std_string w (str_p s) (str_n s))"

text \<open>Reading a NUL-terminated string: the characters before the first NUL.\<close>

definition c_str :: "string \<Rightarrow> string" where
  "c_str s = takeWhile (\<lambda>c. c \<noteq> CHR 0x00) s"

text \<open>\<^verbatim>\<open>e.what()\<close> hands out the message as a \<^verbatim>\<open>const char *\<close>. It is only
  ever called on a \<^verbatim>\<open>std::exception\<close>; the second equation makes the function total.\<close>

fun what :: "exn \<Rightarrow> string" where
  "what (StdException m) = c_str m"
| "what NonStdException = []"

text \<open>\<^verbatim>\<open>strdup\<close> copies a C string into a fresh heap buffer (the allocation is taken
  to succeed).\<close>

definition strdup :: "string \<Rightarrow> charp" where
  "strdup s = Heap (c_str s)"

text \<open>\<^verbatim>\<open>std::runtime_error(msg)\<close>.\<close>

definition runtime_error :: "string \<Rightarrow> exn" where
  "runtime_error msg = StdException msg"

section \<open>Calling through a handle, with and without a handler\<close>

text \<open>
  A native member function is a parameter of the model: it takes the reply object and
  gives back the exception it threw, if any, and the object afterwards. A value that
  the native call returns and the shim drops is not modelled.

  \<open>invoke f reply\<close> is \<^verbatim>\<open>get_ptr<Reply>(reply)->f(...)\<close>.
\<close>

definition get_ptr :: "('c, 'cat) world \<Rightarrow> addr \<Rightarrow> 'c" where
  "get_ptr w reply = replies w reply"

definition invoke ::
  "('c \<Rightarrow> exn option \<times> 'c) \<Rightarrow> addr \<Rightarrow> ('c, 'cat) world \<Rightarrow> exn option \<times> ('c, 'cat) world" where
  "invoke f reply w =
     (case f (get_ptr w reply) of
        (thrown, c') \<Rightarrow> (thrown, w\<lparr>replies := (replies w)(reply := c')\<rparr>))"

text \<open>A function body with no handler around it: what is thrown leaves the function.\<close>

definition uncaught ::
  "exn option \<times> ('c, 'cat) world \<Rightarrow> ffi_exit \<times> ('c, 'cat) world" where
  "uncaught r = (case r of (None, w') \<Rightarrow> (Returned, w') | (Some e, w') \<Rightarrow> (Escaped e, w'))"

text \<open>
  \<^verbatim>\<open>
  try { body } catch (const std::exception &e) { *error = strdup(e.what()); }
  \<close>
  The handler matches only what derives from \<^verbatim>\<open>std::exception\<close>.
\<close>

definition try_catch ::
  "addr \<Rightarrow> exn option \<times> ('c, 'cat) world \<Rightarrow> ffi_exit \<times> ('c, 'cat) world" where
  "try_catch error r =
     (case r of
        (None, w') \<Rightarrow> (Returned, w')
      | (Some (StdException m), w') \<Rightarrow>
          (Returned, w'\<lparr>charps := (charps w')(error := strdup (what (StdException m)))\<rparr>)
      | (Some NonStdException, w') \<Rightarrow> (Escaped NonStdException, w'))"

section \<open>The search reply\<close>

text \<open>
  \<^verbatim>\<open>
  void search_reply_finished(SharedPtrData reply) {
      get_ptr<SearchReply>(reply)->finished();
  }
  \<close>
\<close>

definition search_reply_finished ::
  "('c \<Rightarrow> exn option \<times> 'c) \<Rightarrow> addr \<Rightarrow> ('c, 'cat) world \<Rightarrow> ffi_exit \<times> ('c, 'cat) world" where
  "search_reply_finished finished reply w = uncaught (invoke finished reply w)"

text \<open>
  \<^verbatim>\<open>
  void search_reply_error(SharedPtrData reply, void *err_string) {
      get_ptr<SearchReply>(reply)->error(std::make_exception_ptr(
          std::runtime_error(from_gostring(err_string))));
  }
  \<close>
\<close>

definition search_reply_error ::
  "(exn \<Rightarrow> 'c \<Rightarrow> exn option \<times> 'c) \<Rightarrow> addr \<Rightarrow> addr \<Rightarrow> ('c, 'cat) world
     \<Rightarrow> ffi_exit \<times> ('c, 'cat) world" where
  "search_reply_error error_fn reply err_string w =
     uncaught (invoke (error_fn (runtime_error (from_gostring w err_string))) reply w)"

text \<open>
  \<^verbatim>\<open>
  void search_reply_register_category(SharedPtrData reply, void *id, void *title,
          void *icon, void *cat_template, SharedPtrData category) {
      CategoryRenderer renderer;
      std::string renderer_template = from_gostring(cat_template);
      if (!renderer_template.empty()) {
          renderer = CategoryRenderer(renderer_template);
      }
      auto cat = get_ptr<SearchReply>(reply)->register_category(from_gostring(id),
          from_gostring(title), from_gostring(icon), renderer);
      init_ptr<const Category>(category, cat);
  }
  \<close>
  \<open>default_renderer\<close> is the default-constructed \<^verbatim>\<open>CategoryRenderer\<close>,
  \<open>CategoryRenderer\<close> the constructor from a template string; both belong to the
  native library. There is no handler and no error cell.
\<close>

definition search_reply_register_category ::
  "'ren \<Rightarrow> (string \<Rightarrow> exn + 'ren)
     \<Rightarrow> (string \<Rightarrow> string \<Rightarrow> string \<Rightarrow> 'ren \<Rightarrow> 'c \<Rightarrow> (exn + 'cat) \<times> 'c)
     \<Rightarrow> addr \<Rightarrow> addr \<Rightarrow> addr \<Rightarrow> addr \<Rightarrow> addr \<Rightarrow> addr \<Rightarrow> ('c, 'cat) world
     \<Rightarrow> ffi_exit \<times> ('c, 'cat) world" where
  "search_reply_register_category default_renderer CategoryRenderer register_category
       reply cat_id title icon cat_template category w =
     (let renderer_template = from_gostring w cat_template in
      case (if renderer_template \<noteq> [] then CategoryRenderer renderer_template
            else Inr default_renderer) of
        Inl e \<Rightarrow> (Escaped e, w)
      | Inr renderer \<Rightarrow>
          (case register_category (from_gostring w cat_id) (from_gostring w title)
                  (from_gostring w icon) renderer (get_ptr w reply) of
             (Inl e, c') \<Rightarrow> (Escaped e, w\<lparr>replies := (replies w)(reply := c')\<rparr>)
           | (Inr cat, c') \<Rightarrow>
               (Returned, w\<lparr>replies := (replies w)(reply := c'),
                            categories := (categories w)(category := Some cat)\<rparr>)))"

text \<open>
  \<^verbatim>\<open>
  void search_reply_register_departments(SharedPtrData reply, SharedPtrData dept) {
      get_ptr<SearchReply>(reply)->register_departments(get_ptr<Department>(dept));
  }
  \<close>
  \<open>dept\<close> stands for the department object behind the second handle.
\<close>

definition search_reply_register_departments ::
  "('dep \<Rightarrow> 'c \<Rightarrow> exn option \<times> 'c) \<Rightarrow> addr \<Rightarrow> 'dep \<Rightarrow> ('c, 'cat) world
     \<Rightarrow> ffi_exit \<times> ('c, 'cat) world" where
  "search_reply_register_departments register_departments reply dept w =
     uncaught (invoke (register_departments dept) reply w)"

text \<open>
  \<^verbatim>\<open>
  void search_reply_push(SharedPtrData reply, _CategorisedResult *result, char **error) {
      try {
          get_ptr<SearchReply>(reply)->push(*reinterpret_cast<CategorisedResult*>(result));
      } catch (const std::exception &e) {
          *error = strdup(e.what());
      }
  }
  \<close>
  \<open>result\<close> stands for the \<^verbatim>\<open>CategorisedResult\<close> the pointer addresses.
\<close>

definition search_reply_push_body ::
  "('r \<Rightarrow> 'c \<Rightarrow> exn option \<times> 'c) \<Rightarrow> addr \<Rightarrow> 'r \<Rightarrow> ('c, 'cat) world
     \<Rightarrow> exn option \<times> ('c, 'cat) world" where
  "search_reply_push_body push reply result w = invoke (push result) reply w"

definition search_reply_push ::
  "('r \<Rightarrow> 'c \<Rightarrow> exn option \<times> 'c) \<Rightarrow> addr \<Rightarrow> 'r \<Rightarrow> addr \<Rightarrow> ('c, 'cat) world
     \<Rightarrow> ffi_exit \<times> ('c, 'cat) world" where
  "search_reply_push push reply result error w =
     try_catch error (search_reply_push_body push reply result w)"

text \<open>
  \<^verbatim>\<open>
  void search_reply_push_filters(SharedPtrData reply, void *filters_json,
          void *filter_state_json, char **error) {
      try {
          Variant filters_var = Variant::deserialize_json(from_gostring(filters_json));
          Variant filter_state_var = Variant::deserialize_json(from_gostring(filter_state_json));
          Filters filters;
          for (const auto &f : filters_var.get_array()) {
              filters.emplace_back(FilterBase::deserialize(f.get_dict()));
          }
          auto filter_state = FilterState::deserialize(filter_state_var.get_dict());
          get_ptr<SearchReply>(reply)->push(filters, filter_state);
      } catch (const std::exception &e) {
          *error = strdup(e.what());
      }
  }
  \<close>
  The decoding functions of the native library are parameters; each returns its value
  or the exception it throws.
\<close>

record ('v, 'd, 'f, 'fs) filter_api =
  deserialize_json :: "string \<Rightarrow> exn + 'v"
  get_array :: "'v \<Rightarrow> exn + 'v list"
  get_dict :: "'v \<Rightarrow> exn + 'd"
  FilterBase_deserialize :: "'d \<Rightarrow> exn + 'f"
  FilterState_deserialize :: "'d \<Rightarrow> exn + 'fs"

text \<open>The \<^verbatim>\<open>for\<close> loop over the array, with \<open>filters\<close> the vector built so far.\<close>

fun filters_loop ::
  "('v, 'd, 'f, 'fs) filter_api \<Rightarrow> 'v list \<Rightarrow> 'f list \<Rightarrow> exn + 'f list" where
  "filters_loop A [] filters = Inr filters"
| "filters_loop A (f # rest) filters =
     (case get_dict A f of
        Inl e \<Rightarrow> Inl e
      | Inr d \<Rightarrow>
          (case FilterBase_deserialize A d of
             Inl e \<Rightarrow> Inl e
           | Inr x \<Rightarrow> filters_loop A rest (filters @ [x])))"

text \<open>The statements of the \<^verbatim>\<open>try\<close> block before the push, on the two texts.\<close>

definition decode_filters ::
  "('v, 'd, 'f, 'fs) filter_api \<Rightarrow> string \<Rightarrow> string \<Rightarrow> exn + ('f list \<times> 'fs)" where
  "decode_filters A filters_text filter_state_text =
     (case deserialize_json A filters_text of
        Inl e \<Rightarrow> Inl e
      | Inr filters_var \<Rightarrow>
     (case deserialize_json A filter_state_text of
        Inl e \<Rightarrow> Inl e
      | Inr filter_state_var \<Rightarrow>
     (case get_array A filters_var of
        Inl e \<Rightarrow> Inl e
      | Inr arr \<Rightarrow>
     (case filters_loop A arr [] of
        Inl e \<Rightarrow> Inl e
      | Inr filters \<Rightarrow>
     (case get_dict A filter_state_var of
        Inl e \<Rightarrow> Inl e
      | Inr d \<Rightarrow>
     (case FilterState_deserialize A d of
        Inl e \<Rightarrow> Inl e
      | Inr filter_state \<Rightarrow> Inr (filters, filter_state)))))))"

definition search_reply_push_filters_body ::
  "('v, 'd, 'f, 'fs) filter_api \<Rightarrow> ('f list \<Rightarrow> 'fs \<Rightarrow> 'c \<Rightarrow> exn option \<times> 'c)
     \<Rightarrow> addr \<Rightarrow> addr \<Rightarrow> addr \<Rightarrow> ('c, 'cat) world \<Rightarrow> exn option \<times> ('c, 'cat) world" where
  "search_reply_push_filters_body A push reply filters_json filter_state_json w =
     (case decode_filters A (from_gostring w filters_json) (from_gostring w filter_state_json) of
        Inl e \<Rightarrow> (Some e, w)
      | Inr (filters, filter_state) \<Rightarrow> invoke (push filters filter_state) reply w)"

definition search_reply_push_filters ::
  "('v, 'd, 'f, 'fs) filter_api \<Rightarrow> ('f list \<Rightarrow> 'fs \<Rightarrow> 'c \<Rightarrow> exn option \<times> 'c)
     \<Rightarrow> addr \<Rightarrow> addr \<Rightarrow> addr \<Rightarrow> addr \<Rightarrow> ('c, 'cat) world \<Rightarrow> ffi_exit \<times> ('c, 'cat) world" where
  "search_reply_push_filters A push reply filters_json filter_state_json error w =
     try_catch error (search_reply_push_filters_body A push reply filters_json filter_state_json w)"

section \<open>The preview reply\<close>

text \<open>
  \<^verbatim>\<open>
  void preview_reply_finished(SharedPtrData reply) {
      get_ptr<PreviewReply>(reply)->finished();
  }
  void preview_reply_error(SharedPtrData reply, void *err_string) {
      get_ptr<PreviewReply>(reply)->error(std::make_exception_ptr(
          std::runtime_error(from_gostring(err_string))));
  }
  \<close>
\<close>

definition preview_reply_finished ::
  "('c \<Rightarrow> exn option \<times> 'c) \<Rightarrow> addr \<Rightarrow> ('c, 'cat) world \<Rightarrow> ffi_exit \<times> ('c, 'cat) world" where
  "preview_reply_finished finished reply w = uncaught (invoke finished reply w)"

definition preview_reply_error ::
  "(exn \<Rightarrow> 'c \<Rightarrow> exn option \<times> 'c) \<Rightarrow> addr \<Rightarrow> addr \<Rightarrow> ('c, 'cat) world
     \<Rightarrow> ffi_exit \<times> ('c, 'cat) world" where
  "preview_reply_error error_fn reply err_string w =
     uncaught (invoke (error_fn (runtime_error (from_gostring w err_string))) reply w)"

text \<open>
  \<^verbatim>\<open>
  void preview_reply_push_widgets(SharedPtrData reply, void *gostring_array, int count,
          char **error) {
      try {
          GoString *widget_data = static_cast<GoString*>(gostring_array);
          PreviewWidgetList widgets;
          for (int i = 0; i < count; i++) {
              widgets.push_back(PreviewWidget(std::string(
                  widget_data[i].p, widget_data[i].n)));
          }
          get_ptr<PreviewReply>(reply)->push(widgets);
      } catch (const std::exception &e) {
          *error = strdup(e.what());
      }
  }
  \<close>
  \<open>count\<close> and \<open>i\<close> are C \<^verbatim>\<open>int\<close>s. The loop only increments \<open>i\<close> while it is below
  \<open>count\<close>, so \<open>i\<close> never passes \<open>count\<close> and cannot overflow; they are \<open>int\<close> here.
  \<open>PreviewWidget_ctor\<close> is the native constructor from a descriptor string.
\<close>

function widgets_loop ::
  "(string \<Rightarrow> exn + 'wd) \<Rightarrow> ('c, 'cat) world \<Rightarrow> addr \<Rightarrow> int \<Rightarrow> int \<Rightarrow> 'wd list
     \<Rightarrow> exn + 'wd list" where
  "widgets_loop PreviewWidget_ctor w widget_data count i widgets =
     (if i < count then
        (case PreviewWidget_ctor
                (std_string w (str_p (gostrings w (widget_data + nat i)))
                              (str_n (gostrings w (widget_data + nat i)))) of
           Inl e \<Rightarrow> Inl e
         | Inr x \<Rightarrow> widgets_loop PreviewWidget_ctor w widget_data count (i + 1) (widgets @ [x]))
      else Inr widgets)"
  by pat_completeness auto
termination
  by (relation "measure (\<lambda>(P, w, a, count, i, ws). nat (count - i))") auto

declare widgets_loop.simps [simp del]

definition preview_reply_push_widgets_body ::
  "(string \<Rightarrow> exn + 'wd) \<Rightarrow> ('wd list \<Rightarrow> 'c \<Rightarrow> exn option \<times> 'c)
     \<Rightarrow> addr \<Rightarrow> addr \<Rightarrow> int \<Rightarrow> ('c, 'cat) world \<Rightarrow> exn option \<times> ('c, 'cat) world" where
  "preview_reply_push_widgets_body PreviewWidget_ctor push reply gostring_array count w =
     (case widgets_loop PreviewWidget_ctor w gostring_array count 0 [] of
        Inl e \<Rightarrow> (Some e, w)
      | Inr widgets \<Rightarrow> invoke (push widgets) reply w)"

definition preview_reply_push_widgets ::
  "(string \<Rightarrow> exn + 'wd) \<Rightarrow> ('wd list \<Rightarrow> 'c \<Rightarrow> exn option \<times> 'c)
     \<Rightarrow> addr \<Rightarrow> addr \<Rightarrow> int \<Rightarrow> addr \<Rightarrow> ('c, 'cat) world \<Rightarrow> ffi_exit \<times> ('c, 'cat) world" where
  "preview_reply_push_widgets PreviewWidget_ctor push reply gostring_array count error w =
     try_catch error
       (preview_reply_push_widgets_body PreviewWidget_ctor push reply gostring_array count w)"

text \<open>
  \<^verbatim>\<open>
  void preview_reply_push_attr(SharedPtrData reply, void *key, void *json_value,
          char **error) {
      try {
          Variant value = Variant::deserialize_json(from_gostring(json_value));
          get_ptr<PreviewReply>(reply)->push(from_gostring(key), value);
      } catch (const std::exception &e) {
          *error = strdup(e.what());
      }
  }
  \<close>
\<close>

definition preview_reply_push_attr_body ::
  "(string \<Rightarrow> exn + 'v) \<Rightarrow> (string \<Rightarrow> 'v \<Rightarrow> 'c \<Rightarrow> exn option \<times> 'c)
     \<Rightarrow> addr \<Rightarrow> addr \<Rightarrow> addr \<Rightarrow> ('c, 'cat) world \<Rightarrow> exn option \<times> ('c, 'cat) world" where
  "preview_reply_push_attr_body Variant_deserialize_json push reply key json_value w =
     (case Variant_deserialize_json (from_gostring w json_value) of
        Inl e \<Rightarrow> (Some e, w)
      | Inr val \<Rightarrow> invoke (push (from_gostring w key) val) reply w)"

definition preview_reply_push_attr ::
  "(string \<Rightarrow> exn + 'v) \<Rightarrow> (string \<Rightarrow> 'v \<Rightarrow> 'c \<Rightarrow> exn option \<times> 'c)
     \<Rightarrow> addr \<Rightarrow> addr \<Rightarrow> addr \<Rightarrow> addr \<Rightarrow> ('c, 'cat) world \<Rightarrow> ffi_exit \<times> ('c, 'cat) world" where
  "preview_reply_push_attr Variant_deserialize_json push reply key json_value error w =
     try_catch error
       (preview_reply_push_attr_body Variant_deserialize_json push reply key json_value w)"

section \<open>The reply channel of the specification\<close>

text \<open>
  Modelled from the spec: the native reply object (\<^verbatim>\<open>unity::scopes::SearchReply\<close> and
  \<^verbatim>\<open>PreviewReply\<close>), whose code is not part of \<^verbatim>\<open>reply.cpp\<close>. The specification
  gives it three states, \<open>Open\<close> at first, with \<open>Finished\<close> and \<open>Errored\<close>
  absorbing: \<open>finish\<close> and \<open>error\<close> move an open channel to its terminal state and
  signal the consumer, a push on an open channel is transmitted at once, and every
  call on a terminated channel fails with a ClosedChannelError and transmits nothing.
  \<open>sent\<close> is what the consumer has observed, oldest first.
\<close>

text \<open>Modelled from the spec: the states of a channel.\<close>

datatype chan_state = Open | Finished | Errored

text \<open>Modelled from the spec: what a consumer can observe, a transmitted value, the
  finished signal, or an error event with its message.\<close>

datatype 'a event = Transmitted 'a | FinishedSignal | ErrorEvent string

text \<open>Modelled from the spec: a channel is its state and what it has sent so far.\<close>

record 'a channel =
  state :: chan_state
  sent :: "'a event list"

text \<open>Modelled from the spec: the failure of an operation attempted after
  termination, thrown by the native call as a \<^verbatim>\<open>std::exception\<close>.\<close>

definition ClosedChannelError :: exn where
  "ClosedChannelError = StdException ''ClosedChannelError''"

text \<open>Modelled from the spec: \<open>push(result)\<close>, valid only while the channel is open; on
  success the result is transmitted at once.\<close>

definition channel_push :: "'a \<Rightarrow> 'a channel \<Rightarrow> exn option \<times> 'a channel" where
  "channel_push x ch =
     (if state ch = Open then (None, ch\<lparr>sent := sent ch @ [Transmitted x]\<rparr>)
      else (Some ClosedChannelError, ch))"

text \<open>Modelled from the spec: \<open>pushWidgets(orderedWidgets)\<close>, valid only while open;
  appends the widgets in the given order.\<close>

definition channel_push_list :: "'a list \<Rightarrow> 'a channel \<Rightarrow> exn option \<times> 'a channel" where
  "channel_push_list xs ch =
     (if state ch = Open then (None, ch\<lparr>sent := sent ch @ map Transmitted xs\<rparr>)
      else (Some ClosedChannelError, ch))"

text \<open>Modelled from the spec: \<open>finish()\<close>, from open to finished, closing the stream
  to the consumer.\<close>

definition channel_finished :: "'a channel \<Rightarrow> exn option \<times> 'a channel" where
  "channel_finished ch =
     (if state ch = Open then (None, ch\<lparr>state := Finished, sent := sent ch @ [FinishedSignal]\<rparr>)
      else (Some ClosedChannelError, ch))"

text \<open>Modelled from the spec: \<open>error(message)\<close>, from open to errored, carrying the
  diagnostic.\<close>

definition channel_error :: "exn \<Rightarrow> 'a channel \<Rightarrow> exn option \<times> 'a channel" where
  "channel_error e ch =
     (if state ch = Open then (None, ch\<lparr>state := Errored, sent := sent ch @ [ErrorEvent (what e)]\<rparr>)
      else (Some ClosedChannelError, ch))"

text \<open>Modelled from the spec: the initial state is open, with nothing sent.\<close>

definition open_channel :: "'a channel" where
  "open_channel = \<lparr>state = Open, sent = []\<rparr>"

section \<open>Concrete inputs for the examples\<close>

text \<open>Character data laid out at given addresses, NUL elsewhere.\<close>

fun mem_of :: "(addr \<times> string) list \<Rightarrow> addr \<Rightarrow> char" where
  "mem_of [] a = CHR 0x00"
| "mem_of ((b, s) # r) a = (if b \<le> a \<and> a < b + length s then s ! (a - b) else mem_of r a)"

text \<open>An array of \<^verbatim>\<open>GoString\<close> structs in slots \<open>0, 1, \<dots>\<close>; empty strings elsewhere.\<close>

definition structs_of :: "GoString list \<Rightarrow> addr \<Rightarrow> GoString" where
  "structs_of gs a = (if a < length gs then gs ! a else \<lparr>str_p = 0, str_n = 0\<rparr>)"

text \<open>
  A small Go heap. Slot 0 is a three-byte string with a NUL in the middle, slots 1 to 3
  are three widget descriptors, slot 4 an error message, slots 5 and 6 two JSON
  texts whose ids differ, slots 7 and 8 a category id and title, slot 9 the empty
  string, slot 10 a renderer template, slot 11 a text that is not JSON, slots 12 to 14
  three filter arrays (two filters; a second element that is no dictionary; a second
  filter of an unknown kind), slot 15 a filter state that is rejected.
\<close>

definition demo_bytes :: "addr \<Rightarrow> char" where
  "demo_bytes = mem_of
     [(100, [CHR ''a'', CHR 0x00, CHR ''b'']),
      (200, ''W1''), (210, ''W2''), (220, ''W3''),
      (300, ''backend timeout''),
      (400, ''[{id:f1}]''), (420, ''{f2:1}''),
      (500, ''sports''), (510, ''Sports''),
      (600, ''{grid}''),
      (700, ''nope!''),
      (800, ''[{id:f1},{id:f3}]''),
      (830, ''[{id:f1},[],{id:f3}]''),
      (860, ''[{id:f1},{id:bad}]''),
      (890, ''{bad:1}'')]"

definition demo_gostrings :: "addr \<Rightarrow> GoString" where
  "demo_gostrings = structs_of
     [\<lparr>str_p = 100, str_n = 3\<rparr>,
      \<lparr>str_p = 200, str_n = 2\<rparr>, \<lparr>str_p = 210, str_n = 2\<rparr>, \<lparr>str_p = 220, str_n = 2\<rparr>,
      \<lparr>str_p = 300, str_n = 15\<rparr>,
      \<lparr>str_p = 400, str_n = 9\<rparr>, \<lparr>str_p = 420, str_n = 6\<rparr>,
      \<lparr>str_p = 500, str_n = 6\<rparr>, \<lparr>str_p = 510, str_n = 6\<rparr>,
      \<lparr>str_p = 0, str_n = 0\<rparr>,
      \<lparr>str_p = 600, str_n = 6\<rparr>,
      \<lparr>str_p = 700, str_n = 5\<rparr>,
      \<lparr>str_p = 800, str_n = 17\<rparr>,
      \<lparr>str_p = 830, str_n = 20\<rparr>,
      \<lparr>str_p = 860, str_n = 18\<rparr>,
      \<lparr>str_p = 890, str_n = 7\<rparr>]"

text \<open>The heap above, every \<^verbatim>\<open>char *\<close> cell holding \<open>Wild 7\<close>, every reply handle
  holding the object \<open>c\<close>, no category handle initialised.\<close>

definition demo_world :: "'c \<Rightarrow> ('c, 'cat) world" where
  "demo_world c =
     \<lparr>gostrings = demo_gostrings, bytes = demo_bytes, charps = (\<lambda>_. Wild 7),
      replies = (\<lambda>_. c), categories = (\<lambda>_. None)\<rparr>"

text \<open>Native calls for the examples: one that throws, one that records its argument.\<close>

definition throwing :: "exn \<Rightarrow> 'c \<Rightarrow> exn option \<times> 'c" where
  "throwing e c = (Some e, c)"

definition throwing1 :: "exn \<Rightarrow> 'a \<Rightarrow> 'c \<Rightarrow> exn option \<times> 'c" where
  "throwing1 e x c = (Some e, c)"

definition recording :: "'a \<Rightarrow> 'a list \<Rightarrow> exn option \<times> 'a list" where
  "recording x c = (None, c @ [x])"

definition recording_what :: "exn \<Rightarrow> string list \<Rightarrow> exn option \<times> string list" where
  "recording_what e c = (None, c @ [what e])"

definition recording_pair :: "'a \<Rightarrow> 'b \<Rightarrow> ('a \<times> 'b) list \<Rightarrow> exn option \<times> ('a \<times> 'b) list" where
  "recording_pair x y c = (None, c @ [(x, y)])"

text \<open>A category registry that hands back what it was given, and one that rejects.\<close>

definition demo_register ::
  "string \<Rightarrow> string \<Rightarrow> string \<Rightarrow> string \<Rightarrow> (string \<times> string) list
     \<Rightarrow> (exn + string \<times> string) \<times> (string \<times> string) list" where
  "demo_register i t ic ren c = (Inr (i, ren), c @ [(i, ren)])"

definition rejecting_register ::
  "string \<Rightarrow> string \<Rightarrow> string \<Rightarrow> string \<Rightarrow> (string \<times> string) list
     \<Rightarrow> (exn + string \<times> string) \<times> (string \<times> string) list" where
  "rejecting_register i t ic ren c = (Inl (StdException ''duplicate category''), c)"

definition demo_renderer :: "string \<Rightarrow> exn + string" where
  "demo_renderer t = Inr t"

text \<open>A decoder that knows two texts and rejects the rest; a filter and a filter state
  are represented by the id they carry.\<close>

datatype demo_variant = DArray "demo_variant list" | DDict string

definition demo_deserialize_json :: "string \<Rightarrow> exn + demo_variant" where
  "demo_deserialize_json s =
     (if s = ''[{id:f1}]'' then Inr (DArray [DDict ''f1''])
      else if s = ''{f2:1}'' then Inr (DDict ''f2'')
      else Inl (StdException ''parse error''))"

fun demo_get_array :: "demo_variant \<Rightarrow> exn + demo_variant list" where
  "demo_get_array (DArray vs) = Inr vs"
| "demo_get_array (DDict k) = Inl (StdException ''not an array'')"

fun demo_get_dict :: "demo_variant \<Rightarrow> exn + string" where
  "demo_get_dict (DDict k) = Inr k"
| "demo_get_dict (DArray vs) = Inl (StdException ''not a dict'')"

definition demo_api :: "(demo_variant, string, string, string) filter_api" where
  "demo_api =
     \<lparr>deserialize_json = demo_deserialize_json, get_array = demo_get_array,
      get_dict = demo_get_dict, FilterBase_deserialize = Inr, FilterState_deserialize = Inr\<rparr>"

text \<open>A decoder that knows more texts, with a filter decoder and a filter state
  decoder that reject the id \<open>bad\<close>.\<close>

definition demo_parse_json :: "string \<Rightarrow> exn + demo_variant" where
  "demo_parse_json s =
     (if s = ''[{id:f1}]'' then Inr (DArray [DDict ''f1''])
      else if s = ''{f2:1}'' then Inr (DDict ''f2'')
      else if s = ''[{id:f1},{id:f3}]'' then Inr (DArray [DDict ''f1'', DDict ''f3''])
      else if s = ''[{id:f1},[],{id:f3}]''
        then Inr (DArray [DDict ''f1'', DArray [], DDict ''f3''])
      else if s = ''[{id:f1},{id:bad}]'' then Inr (DArray [DDict ''f1'', DDict ''bad''])
      else if s = ''{bad:1}'' then Inr (DDict ''bad'')
      else Inl (StdException ''parse error''))"

definition demo_filter :: "string \<Rightarrow> exn + string" where
  "demo_filter d = (if d = ''bad'' then Inl (StdException ''unknown filter'') else Inr d)"

definition demo_filter_state :: "string \<Rightarrow> exn + string" where
  "demo_filter_state d = (if d = ''bad'' then Inl (StdException ''bad state'') else Inr d)"

definition demo_strict_api :: "(demo_variant, string, string, string) filter_api" where
  "demo_strict_api =
     \<lparr>deserialize_json = demo_parse_json, get_array = demo_get_array,
      get_dict = demo_get_dict, FilterBase_deserialize = demo_filter,
      FilterState_deserialize = demo_filter_state\<rparr>"

definition demo_widget :: "string \<Rightarrow> exn + string" where
  "demo_widget s = Inr s"

definition rejecting_widget :: "string \<Rightarrow> exn + string" where
  "rejecting_widget s = Inl (StdException ''bad widget'')"

section \<open>Basic facts\<close>

lemma c_str_idem: "c_str (c_str s) = c_str s"
  by (simp add: c_str_def)

lemma c_str_no_nul: "CHR 0x00 \<notin> set s \<Longrightarrow> c_str s = s"
  by (auto simp: c_str_def)

lemma try_catch_None: "try_catch error (None, w') = (Returned, w')"
  by (simp add: try_catch_def)

lemma try_catch_std:
  "try_catch error (Some (StdException m), w') =
     (Returned, w'\<lparr>charps := (charps w')(error := Heap (c_str m))\<rparr>)"
  by (simp add: try_catch_def strdup_def c_str_idem)

lemma try_catch_no_std_escape: "fst (try_catch error r) \<noteq> Escaped (StdException m)"
  by (auto simp: try_catch_def split: prod.splits option.splits exn.splits)

lemma charps_invoke: "charps (snd (invoke f reply w)) = charps w"
  by (simp add: invoke_def split: prod.splits)

lemma charps_push_body: "charps (snd (search_reply_push_body push reply result w)) = charps w"
  by (simp add: search_reply_push_body_def charps_invoke)

lemma charps_push_filters_body:
  "charps (snd (search_reply_push_filters_body A push reply fj fsj w)) = charps w"
  by (simp add: search_reply_push_filters_body_def charps_invoke split: sum.splits prod.splits)

lemma charps_push_widgets_body:
  "charps (snd (preview_reply_push_widgets_body P push reply arr count w)) = charps w"
  by (simp add: preview_reply_push_widgets_body_def charps_invoke split: sum.splits)

lemma charps_push_attr_body:
  "charps (snd (preview_reply_push_attr_body D push reply key jv w)) = charps w"
  by (simp add: preview_reply_push_attr_body_def charps_invoke split: sum.splits)

lemma std_string_gostring:
  "std_string w (str_p (gostrings w a)) (str_n (gostrings w a)) = from_gostring w a"
  by (simp add: from_gostring_def Let_def)

text \<open>The example heap.\<close>

lemma demo_fields:
  "replies (demo_world c) = (\<lambda>_. c)"
  "charps (demo_world c) = (\<lambda>_. Wild 7)"
  "categories (demo_world c) = (\<lambda>_. None)"
  by (simp_all add: demo_world_def)

lemma demo_strings:
  "from_gostring (demo_world c) 0 = [CHR ''a'', CHR 0x00, CHR ''b'']"
  "from_gostring (demo_world c) 1 = ''W1''"
  "from_gostring (demo_world c) 2 = ''W2''"
  "from_gostring (demo_world c) 3 = ''W3''"
  "from_gostring (demo_world c) 4 = ''backend timeout''"
  "from_gostring (demo_world c) 5 = ''[{id:f1}]''"
  "from_gostring (demo_world c) 6 = ''{f2:1}''"
  "from_gostring (demo_world c) 7 = ''sports''"
  "from_gostring (demo_world c) 8 = ''Sports''"
  "from_gostring (demo_world c) 9 = []"
  "from_gostring (demo_world c) 10 = ''{grid}''"
  "from_gostring (demo_world c) 11 = ''nope!''"
  "from_gostring (demo_world c) 12 = ''[{id:f1},{id:f3}]''"
  "from_gostring (demo_world c) 13 = ''[{id:f1},[],{id:f3}]''"
  "from_gostring (demo_world c) 14 = ''[{id:f1},{id:bad}]''"
  "from_gostring (demo_world c) 15 = ''{bad:1}''"
  by (simp_all add: from_gostring_def std_string_def demo_world_def demo_gostrings_def
      demo_bytes_def structs_of_def)

section \<open>Which failures stay inside the shim\<close>

text \<open>
  Claim C1, as the code has it. The four operations that take a \<^verbatim>\<open>char **error\<close>
  argument (\<open>search_reply_push\<close>, \<open>search_reply_push_filters\<close>,
  \<open>preview_reply_push_widgets\<close>, \<open>preview_reply_push_attr\<close>) catch every
  \<^verbatim>\<open>std::exception\<close> thrown inside their body: the function returns, the error cell
  receives a copy of the exception's \<^verbatim>\<open>what()\<close> text, and no \<^verbatim>\<open>std::exception\<close>
  ever leaves them.
\<close>

theorem push_operations_capture_std_exceptions:
  "(search_reply_push_body push reply result w = (Some (StdException m), w') \<longrightarrow>
      search_reply_push push reply result error w =
        (Returned, w'\<lparr>charps := (charps w')(error := Heap (c_str m))\<rparr>))
   \<and> (search_reply_push_filters_body A pushf reply filters_json filter_state_json w
         = (Some (StdException m), w') \<longrightarrow>
      search_reply_push_filters A pushf reply filters_json filter_state_json error w =
        (Returned, w'\<lparr>charps := (charps w')(error := Heap (c_str m))\<rparr>))
   \<and> (preview_reply_push_widgets_body P pushw reply gostring_array count w
         = (Some (StdException m), w') \<longrightarrow>
      preview_reply_push_widgets P pushw reply gostring_array count error w =
        (Returned, w'\<lparr>charps := (charps w')(error := Heap (c_str m))\<rparr>))
   \<and> (preview_reply_push_attr_body D pusha reply key json_value w
         = (Some (StdException m), w') \<longrightarrow>
      preview_reply_push_attr D pusha reply key json_value error w =
        (Returned, w'\<lparr>charps := (charps w')(error := Heap (c_str m))\<rparr>))
   \<and> fst (search_reply_push push reply result error w) \<noteq> Escaped (StdException m')
   \<and> fst (search_reply_push_filters A pushf reply filters_json filter_state_json error w)
        \<noteq> Escaped (StdException m')
   \<and> fst (preview_reply_push_widgets P pushw reply gostring_array count error w)
        \<noteq> Escaped (StdException m')
   \<and> fst (preview_reply_push_attr D pusha reply key json_value error w)
        \<noteq> Escaped (StdException m')"
  by (simp add: search_reply_push_def search_reply_push_filters_def
      preview_reply_push_widgets_def preview_reply_push_attr_def
      try_catch_std try_catch_no_std_escape)

theorem push_operations_capture_std_exceptions_witness:
  "fst (search_reply_push (throwing1 (StdException ''boom'')) 0 () 5
          (demo_world () :: (unit, unit) world)) = Returned
   \<and> charps (snd (search_reply_push (throwing1 (StdException ''boom'')) 0 () 5
          (demo_world () :: (unit, unit) world))) 5 = Heap ''boom''
   \<and> fst (search_reply_push_filters demo_api recording_pair 0 11 6 5
          (demo_world [] :: ((string list \<times> string) list, unit) world)) = Returned
   \<and> charps (snd (search_reply_push_filters demo_api recording_pair 0 11 6 5
          (demo_world [] :: ((string list \<times> string) list, unit) world))) 5
        = Heap ''parse error''
   \<and> fst (preview_reply_push_widgets rejecting_widget recording 0 1 3 5
          (demo_world [] :: (string list list, unit) world)) = Returned
   \<and> charps (snd (preview_reply_push_widgets rejecting_widget recording 0 1 3 5
          (demo_world [] :: (string list list, unit) world))) 5 = Heap ''bad widget''
   \<and> fst (preview_reply_push_attr demo_deserialize_json recording_pair 0 7 11 5
          (demo_world [] :: ((string \<times> demo_variant) list, unit) world)) = Returned
   \<and> charps (snd (preview_reply_push_attr demo_deserialize_json recording_pair 0 7 11 5
          (demo_world [] :: ((string \<times> demo_variant) list, unit) world))) 5
        = Heap ''parse error''"
proof -
  let ?w = "demo_world () :: (unit, unit) world"
  have b1: "search_reply_push_body (throwing1 (StdException ''boom'')) 0 () ?w
              = (Some (StdException ''boom''), ?w)"
    by (simp add: search_reply_push_body_def invoke_def get_ptr_def throwing1_def
        demo_world_def fun_upd_idem_iff)
  let ?v = "demo_world [] :: ((string list \<times> string) list, unit) world"
  have b2: "search_reply_push_filters_body demo_api recording_pair 0 11 6 ?v
              = (Some (StdException ''parse error''), ?v)"
    by (simp add: search_reply_push_filters_body_def decode_filters_def demo_strings
        demo_api_def demo_deserialize_json_def)
  let ?u = "demo_world [] :: (string list list, unit) world"
  have b3: "preview_reply_push_widgets_body rejecting_widget recording 0 1 3 ?u
              = (Some (StdException ''bad widget''), ?u)"
    by (simp add: preview_reply_push_widgets_body_def widgets_loop.simps rejecting_widget_def)
  let ?t = "demo_world [] :: ((string \<times> demo_variant) list, unit) world"
  have b4: "preview_reply_push_attr_body demo_deserialize_json recording_pair 0 7 11 ?t
              = (Some (StdException ''parse error''), ?t)"
    by (simp add: preview_reply_push_attr_body_def demo_strings demo_deserialize_json_def)
  have c: "c_str ''boom'' = ''boom''" "c_str ''parse error'' = ''parse error''"
    "c_str ''bad widget'' = ''bad widget''"
    by (simp_all add: c_str_def)
  have e1: "search_reply_push (throwing1 (StdException ''boom'')) 0 () 5 ?w
     = (Returned, ?w\<lparr>charps := (charps ?w)(5 := Heap ''boom'')\<rparr>)"
    using push_operations_capture_std_exceptions [THEN conjunct1, rule_format, OF b1] c
    by simp
  have e2: "search_reply_push_filters demo_api recording_pair 0 11 6 5 ?v
     = (Returned, ?v\<lparr>charps := (charps ?v)(5 := Heap ''parse error'')\<rparr>)"
    using push_operations_capture_std_exceptions
            [THEN conjunct2, THEN conjunct1, rule_format, OF b2] c
    by simp
  have e3: "preview_reply_push_widgets rejecting_widget recording 0 1 3 5 ?u
     = (Returned, ?u\<lparr>charps := (charps ?u)(5 := Heap ''bad widget'')\<rparr>)"
    using push_operations_capture_std_exceptions
            [THEN conjunct2, THEN conjunct2, THEN conjunct1, rule_format, OF b3] c
    by simp
  have e4: "preview_reply_push_attr demo_deserialize_json recording_pair 0 7 11 5 ?t
     = (Returned, ?t\<lparr>charps := (charps ?t)(5 := Heap ''parse error'')\<rparr>)"
    using push_operations_capture_std_exceptions
            [THEN conjunct2, THEN conjunct2, THEN conjunct2, THEN conjunct1, rule_format, OF b4] c
    by simp
  from e1 e2 e3 e4 show ?thesis by simp
qed

text \<open>
  The operations without an error cell (\<open>finished\<close>, \<open>error\<close>,
  \<open>register_category\<close>, \<open>register_departments\<close>) have no handler: what the native
  call throws leaves the C function. So does a thrown value that is not a
  \<^verbatim>\<open>std::exception\<close>, even in a push.
\<close>

theorem native_failures_escape_counterexample:
  "fst (search_reply_finished (throwing (StdException ''boom'')) 0 (demo_world () :: (unit, unit) world))
     = Escaped (StdException ''boom'')
   \<and> fst (search_reply_error (throwing1 (StdException ''boom'')) 0 4 (demo_world () :: (unit, unit) world))
     = Escaped (StdException ''boom'')
   \<and> fst (search_reply_register_category [] demo_renderer rejecting_register 0 7 8 9 9 1
            (demo_world [] :: ((string \<times> string) list, string \<times> string) world))
     = Escaped (StdException ''duplicate category'')
   \<and> fst (search_reply_register_departments (throwing1 (StdException ''boom'')) 0 ()
            (demo_world () :: (unit, unit) world))
     = Escaped (StdException ''boom'')
   \<and> fst (search_reply_push (throwing1 NonStdException) 0 () 5 (demo_world () :: (unit, unit) world))
     = Escaped NonStdException"
  by (simp add: search_reply_finished_def search_reply_error_def
      search_reply_register_category_def search_reply_register_departments_def
      search_reply_push_def search_reply_push_body_def try_catch_def
      uncaught_def invoke_def get_ptr_def throwing_def throwing1_def rejecting_register_def
      demo_strings)

section \<open>How strings cross the boundary\<close>

lemma std_string_eq:
  "length xs = k \<Longrightarrow> (\<forall>i<k. bytes w (a + i) = xs ! i) \<Longrightarrow> std_string w a k = xs"
  by (auto simp: std_string_def intro!: nth_equalityI)

lemma length_from_gostring: "length (from_gostring w s) = str_n (gostrings w s)"
  by (simp add: from_gostring_def std_string_def Let_def)

lemma search_reply_push_throws:
  "push result (get_ptr w reply) = (Some (StdException m), c') \<Longrightarrow>
   search_reply_push push reply result error w =
     (Returned, w\<lparr>replies := (replies w)(reply := c'),
                  charps := (charps w)(error := Heap (c_str m))\<rparr>)"
  by (simp add: search_reply_push_def search_reply_push_body_def invoke_def try_catch_std)

text \<open>
  Claim C2, as the code has it. Every string that comes in is read through
  \<open>from_gostring\<close>, which takes exactly the \<open>n\<close> characters at \<open>p\<close>: whatever
  characters \<open>xs\<close> lie there, NUL included, the result is \<open>xs\<close>, and its length is
  \<open>n\<close>. The error text that goes out is not a pointer with a length: it is the
  \<^verbatim>\<open>char *\<close> that \<^verbatim>\<open>strdup(e.what())\<close> returns, the message up to its first NUL.
\<close>

theorem input_strings_whole_error_strings_c:
  "(str_n (gostrings w s) = length xs \<and>
      (\<forall>i<length xs. bytes w (str_p (gostrings w s) + i) = xs ! i) \<longrightarrow>
        from_gostring w s = xs)
   \<and> length (from_gostring w s) = str_n (gostrings w s)
   \<and> (push result (get_ptr w reply) = (Some (StdException m), c') \<longrightarrow>
        charps (snd (search_reply_push push reply result error w)) error
          = Heap (takeWhile (\<lambda>c. c \<noteq> CHR 0x00) m))"
proof (intro conjI impI)
  assume "str_n (gostrings w s) = length xs \<and>
      (\<forall>i<length xs. bytes w (str_p (gostrings w s) + i) = xs ! i)"
  then show "from_gostring w s = xs"
    by (simp add: from_gostring_def std_string_eq)
next
  show "length (from_gostring w s) = str_n (gostrings w s)"
    by (rule length_from_gostring)
next
  assume "push result (get_ptr w reply) = (Some (StdException m), c')"
  then show "charps (snd (search_reply_push push reply result error w)) error
          = Heap (takeWhile (\<lambda>c. c \<noteq> CHR 0x00) m)"
    by (simp add: search_reply_push_throws c_str_def)
qed

theorem input_strings_whole_error_strings_c_witness:
  "from_gostring (demo_world () :: (unit, unit) world) 0 = [CHR ''a'', CHR 0x00, CHR ''b'']
   \<and> charps (snd (search_reply_push (throwing1 (StdException ''boom'')) 0 () 5
          (demo_world () :: (unit, unit) world))) 5 = Heap ''boom''"
proof -
  let ?w = "demo_world () :: (unit, unit) world"
  let ?xs = "[CHR ''a'', CHR 0x00, CHR ''b'']"
  have g: "gostrings ?w 0 = \<lparr>str_p = 100, str_n = 3\<rparr>"
    by (simp add: demo_world_def demo_gostrings_def structs_of_def)
  have "\<forall>i<length ?xs. bytes ?w (100 + i) = ?xs ! i"
    by (auto simp: demo_world_def demo_bytes_def less_Suc_eq)
  with g have b: "\<forall>i<length ?xs. bytes ?w (str_p (gostrings ?w 0) + i) = ?xs ! i"
    by simp
  have h: "throwing1 (StdException ''boom'') () (get_ptr ?w 0) = (Some (StdException ''boom''), ())"
    by (simp add: throwing1_def)
  from input_strings_whole_error_strings_c [of ?w 0 ?xs, THEN conjunct1, rule_format] g b
  have e1: "from_gostring ?w 0 = ?xs" by simp
  from input_strings_whole_error_strings_c
         [where push = "throwing1 (StdException ''boom'')" and result = "()" and w = ?w
            and reply = 0 and m = "''boom''" and c' = "()" and error = 5,
          THEN conjunct2, THEN conjunct2, rule_format, OF h]
  have e2: "charps (snd (search_reply_push (throwing1 (StdException ''boom'')) 0 () 5 ?w)) 5
              = Heap ''boom''" by simp
  from e1 e2 show ?thesis by simp
qed

text \<open>An error message with a NUL inside reaches the caller cut at the NUL.\<close>

theorem error_string_truncated_counterexample:
  "charps (snd (search_reply_push
                  (throwing1 (StdException [CHR ''a'', CHR 0x00, CHR ''b''])) 0 () 5
                  (demo_world () :: (unit, unit) world))) 5 = Heap ''a''"
  by (simp add: search_reply_push_throws [where c' = "()"] throwing1_def c_str_def)

section \<open>Pushing into a terminated channel\<close>

lemma state_after_finished:
  "state (get_ptr (snd (search_reply_finished channel_finished reply w)) reply) \<noteq> Open"
  by (simp add: search_reply_finished_def invoke_def uncaught_def get_ptr_def
      channel_finished_def split: option.splits)

lemma state_after_error:
  "state (get_ptr (snd (search_reply_error channel_error reply err_string w)) reply) \<noteq> Open"
  by (simp add: search_reply_error_def invoke_def uncaught_def get_ptr_def
      channel_error_def split: option.splits)

lemma push_on_closed:
  "state (get_ptr w1 reply) \<noteq> Open \<Longrightarrow>
   search_reply_push channel_push reply result error w1 =
     (Returned, w1\<lparr>charps := (charps w1)(error := Heap ''ClosedChannelError'')\<rparr>)"
  by (simp add: search_reply_push_def search_reply_push_body_def invoke_def channel_push_def
      ClosedChannelError_def try_catch_std c_str_def get_ptr_def)

text \<open>
  Claim C3, on the channel of the specification: once \<open>search_reply_finished\<close> or
  \<open>search_reply_error\<close> has been called on a handle, every \<open>search_reply_push\<close> on it
  returns with the ClosedChannelError text in the error cell, the consumer observes
  nothing new, and the channel is still terminated, so the same holds for the next
  push.
\<close>

theorem push_after_termination_rejected:
  assumes "w1 = snd (search_reply_finished channel_finished reply w)
         \<or> w1 = snd (search_reply_error channel_error reply err_string w)"
  shows "search_reply_push channel_push reply result error w1 =
           (Returned, w1\<lparr>charps := (charps w1)(error := Heap ''ClosedChannelError'')\<rparr>)
       \<and> sent (get_ptr (snd (search_reply_push channel_push reply result error w1)) reply)
           = sent (get_ptr w1 reply)
       \<and> state (get_ptr (snd (search_reply_push channel_push reply result error w1)) reply)
           \<noteq> Open"
proof -
  from assms have closed: "state (get_ptr w1 reply) \<noteq> Open"
    using state_after_finished state_after_error by blast
  then show ?thesis
    by (simp add: push_on_closed get_ptr_def)
qed

theorem push_after_termination_rejected_witness:
  "fst (search_reply_push channel_push 0 ''Match A'' 5
         (snd (search_reply_finished channel_finished 0
                 (demo_world open_channel :: (string channel, unit) world)))) = Returned
   \<and> charps (snd (search_reply_push channel_push 0 ''Match A'' 5
         (snd (search_reply_finished channel_finished 0
                 (demo_world open_channel :: (string channel, unit) world))))) 5
       = Heap ''ClosedChannelError''
   \<and> sent (get_ptr (snd (search_reply_push channel_push 0 ''Match A'' 5
         (snd (search_reply_finished channel_finished 0
                 (demo_world open_channel :: (string channel, unit) world))))) 0)
       = [FinishedSignal]"
proof -
  let ?w = "demo_world open_channel :: (string channel, unit) world"
  let ?w1 = "snd (search_reply_finished channel_finished 0 ?w)"
  have s: "sent (get_ptr ?w1 0) = [FinishedSignal]"
    by (simp add: search_reply_finished_def invoke_def uncaught_def get_ptr_def
        channel_finished_def demo_world_def open_channel_def)
  have "?w1 = snd (search_reply_finished channel_finished 0 ?w)
         \<or> ?w1 = snd (search_reply_error channel_error 0 4 ?w)" by simp
  from push_after_termination_rejected [OF this, of "''Match A''" 5] s
  show ?thesis by (simp add: get_ptr_def)
qed

section \<open>The filter push\<close>

lemma filters_loop_all:
  "length fs = length arr \<Longrightarrow>
   \<forall>i<length arr. \<exists>d. get_dict A (arr ! i) = Inr d
                        \<and> FilterBase_deserialize A d = Inr (fs ! i) \<Longrightarrow>
   filters_loop A arr acc = Inr (acc @ fs)"
proof (induction arr arbitrary: fs acc)
  case Nil
  then show ?case by simp
next
  case (Cons v rest)
  from Cons.prems(1) obtain x fs' where fs: "fs = x # fs'" and len: "length fs' = length rest"
    by (cases fs) auto
  from Cons.prems(2) [rule_format, of 0] fs
  obtain d where d: "get_dict A v = Inr d" "FilterBase_deserialize A d = Inr x"
    by auto
  have "\<forall>i<length rest. \<exists>d. get_dict A (rest ! i) = Inr d
                        \<and> FilterBase_deserialize A d = Inr (fs' ! i)"
  proof (intro allI impI)
    fix i assume "i < length rest"
    with Cons.prems(2) [rule_format, of "Suc i"] fs
    show "\<exists>d. get_dict A (rest ! i) = Inr d \<and> FilterBase_deserialize A d = Inr (fs' ! i)"
      by simp
  qed
  from Cons.IH [OF len this, of "acc @ [x]"] d fs show ?case by simp
qed

lemma filters_loop_fails:
  "k < length arr \<Longrightarrow>
   \<forall>i<k. \<exists>d x. get_dict A (arr ! i) = Inr d \<and> FilterBase_deserialize A d = Inr x \<Longrightarrow>
   get_dict A (arr ! k) = Inl e
     \<or> (\<exists>d. get_dict A (arr ! k) = Inr d \<and> FilterBase_deserialize A d = Inl e) \<Longrightarrow>
   filters_loop A arr acc = Inl e"
proof (induction arr arbitrary: k acc)
  case Nil
  then show ?case by simp
next
  case (Cons v rest)
  show ?case
  proof (cases k)
    case 0
    with Cons.prems(3) show ?thesis by auto
  next
    case (Suc j)
    from Cons.prems(2) [rule_format, of 0] Suc
    obtain d x where d: "get_dict A v = Inr d" "FilterBase_deserialize A d = Inr x"
      by auto
    from Cons.prems(1) Suc have j: "j < length rest" by simp
    have before: "\<forall>i<j. \<exists>d x. get_dict A (rest ! i) = Inr d
                            \<and> FilterBase_deserialize A d = Inr x"
    proof (intro allI impI)
      fix i assume "i < j"
      with Cons.prems(2) [rule_format, of "Suc i"] Suc
      show "\<exists>d x. get_dict A (rest ! i) = Inr d \<and> FilterBase_deserialize A d = Inr x"
        by simp
    qed
    from Cons.prems(3) Suc
    have at: "get_dict A (rest ! j) = Inl e
       \<or> (\<exists>d. get_dict A (rest ! j) = Inr d \<and> FilterBase_deserialize A d = Inl e)"
      by simp
    from Cons.IH [OF j before at, of "acc @ [x]"] d show ?thesis by simp
  qed
qed

text \<open>
  Claim C4. The two texts are decoded first and pushed in a single native call. Each
  way the decoding can fail is listed with the calls that came before it: the first
  text does not parse; the second does not; the first is no array; element \<open>k\<close> of
  the array is no dictionary or no filter, the elements before it being filters; the
  second text is no dictionary; the dictionary is no filter state. In each case the
  call returns, the text of the failure is in the error cell and nothing else has
  changed, the reply object included: the native push was never reached. When every
  step succeeds, element \<open>i\<close> of the array giving the filter \<open>fs ! i\<close>, the call is one
  native push of the whole list \<open>fs\<close>, in the order of the array, with the state.
\<close>

theorem filter_push_decodes_then_pushes_once:
  "(deserialize_json A (from_gostring w filters_json) = Inl (StdException m)
    \<longrightarrow> search_reply_push_filters A push reply filters_json filter_state_json error w
          = (Returned, w\<lparr>charps := (charps w)(error := Heap (c_str m))\<rparr>))
   \<and> (deserialize_json A (from_gostring w filters_json) = Inr filters_var
      \<and> deserialize_json A (from_gostring w filter_state_json) = Inl (StdException m)
    \<longrightarrow> search_reply_push_filters A push reply filters_json filter_state_json error w
          = (Returned, w\<lparr>charps := (charps w)(error := Heap (c_str m))\<rparr>))
   \<and> (deserialize_json A (from_gostring w filters_json) = Inr filters_var
      \<and> deserialize_json A (from_gostring w filter_state_json) = Inr filter_state_var
      \<and> get_array A filters_var = Inl (StdException m)
    \<longrightarrow> search_reply_push_filters A push reply filters_json filter_state_json error w
          = (Returned, w\<lparr>charps := (charps w)(error := Heap (c_str m))\<rparr>))
   \<and> (deserialize_json A (from_gostring w filters_json) = Inr filters_var
      \<and> deserialize_json A (from_gostring w filter_state_json) = Inr filter_state_var
      \<and> get_array A filters_var = Inr arr
      \<and> k < length arr
      \<and> (\<forall>i<k. \<exists>d x. get_dict A (arr ! i) = Inr d \<and> FilterBase_deserialize A d = Inr x)
      \<and> (get_dict A (arr ! k) = Inl (StdException m)
           \<or> (\<exists>d. get_dict A (arr ! k) = Inr d
                 \<and> FilterBase_deserialize A d = Inl (StdException m)))
    \<longrightarrow> search_reply_push_filters A push reply filters_json filter_state_json error w
          = (Returned, w\<lparr>charps := (charps w)(error := Heap (c_str m))\<rparr>))
   \<and> (deserialize_json A (from_gostring w filters_json) = Inr filters_var
      \<and> deserialize_json A (from_gostring w filter_state_json) = Inr filter_state_var
      \<and> get_array A filters_var = Inr arr
      \<and> length fs = length arr
      \<and> (\<forall>i<length arr. \<exists>d. get_dict A (arr ! i) = Inr d
                             \<and> FilterBase_deserialize A d = Inr (fs ! i))
      \<and> get_dict A filter_state_var = Inl (StdException m)
    \<longrightarrow> search_reply_push_filters A push reply filters_json filter_state_json error w
          = (Returned, w\<lparr>charps := (charps w)(error := Heap (c_str m))\<rparr>))
   \<and> (deserialize_json A (from_gostring w filters_json) = Inr filters_var
      \<and> deserialize_json A (from_gostring w filter_state_json) = Inr filter_state_var
      \<and> get_array A filters_var = Inr arr
      \<and> length fs = length arr
      \<and> (\<forall>i<length arr. \<exists>d. get_dict A (arr ! i) = Inr d
                             \<and> FilterBase_deserialize A d = Inr (fs ! i))
      \<and> get_dict A filter_state_var = Inr sd
      \<and> FilterState_deserialize A sd = Inl (StdException m)
    \<longrightarrow> search_reply_push_filters A push reply filters_json filter_state_json error w
          = (Returned, w\<lparr>charps := (charps w)(error := Heap (c_str m))\<rparr>))
   \<and> (deserialize_json A (from_gostring w filters_json) = Inr filters_var
      \<and> deserialize_json A (from_gostring w filter_state_json) = Inr filter_state_var
      \<and> get_array A filters_var = Inr arr
      \<and> length fs = length arr
      \<and> (\<forall>i<length arr. \<exists>d. get_dict A (arr ! i) = Inr d
                             \<and> FilterBase_deserialize A d = Inr (fs ! i))
      \<and> get_dict A filter_state_var = Inr sd
      \<and> FilterState_deserialize A sd = Inr st
    \<longrightarrow> search_reply_push_filters A push reply filters_json filter_state_json error w
          = try_catch error (invoke (push fs st) reply w))"
proof -
  note defs = search_reply_push_filters_def search_reply_push_filters_body_def
    decode_filters_def try_catch_std
  have loop_ok: "filters_loop A arr [] = Inr fs"
    if "length fs = length arr"
      and "\<forall>i<length arr. \<exists>d. get_dict A (arr ! i) = Inr d
                             \<and> FilterBase_deserialize A d = Inr (fs ! i)"
    using filters_loop_all [OF that, of "[]"] by simp
  have loop_bad: "filters_loop A arr [] = Inl (StdException m)"
    if "k < length arr"
      and "\<forall>i<k. \<exists>d x. get_dict A (arr ! i) = Inr d \<and> FilterBase_deserialize A d = Inr x"
      and "get_dict A (arr ! k) = Inl (StdException m)
           \<or> (\<exists>d. get_dict A (arr ! k) = Inr d
                 \<and> FilterBase_deserialize A d = Inl (StdException m))"
    using that by (rule filters_loop_fails)
  show ?thesis
  proof (intro conjI impI; (elim conjE)?)
    assume "deserialize_json A (from_gostring w filters_json) = Inl (StdException m)"
    then show "search_reply_push_filters A push reply filters_json filter_state_json error w
          = (Returned, w\<lparr>charps := (charps w)(error := Heap (c_str m))\<rparr>)"
      by (simp add: defs)
  next
    assume "deserialize_json A (from_gostring w filters_json) = Inr filters_var"
      "deserialize_json A (from_gostring w filter_state_json) = Inl (StdException m)"
    then show "search_reply_push_filters A push reply filters_json filter_state_json error w
          = (Returned, w\<lparr>charps := (charps w)(error := Heap (c_str m))\<rparr>)"
      by (simp add: defs)
  next
    assume "deserialize_json A (from_gostring w filters_json) = Inr filters_var"
      "deserialize_json A (from_gostring w filter_state_json) = Inr filter_state_var"
      "get_array A filters_var = Inl (StdException m)"
    then show "search_reply_push_filters A push reply filters_json filter_state_json error w
          = (Returned, w\<lparr>charps := (charps w)(error := Heap (c_str m))\<rparr>)"
      by (simp add: defs)
  next
    assume "deserialize_json A (from_gostring w filters_json) = Inr filters_var"
      "deserialize_json A (from_gostring w filter_state_json) = Inr filter_state_var"
      "get_array A filters_var = Inr arr"
      and k: "k < length arr"
      "\<forall>i<k. \<exists>d x. get_dict A (arr ! i) = Inr d \<and> FilterBase_deserialize A d = Inr x"
      "get_dict A (arr ! k) = Inl (StdException m)
           \<or> (\<exists>d. get_dict A (arr ! k) = Inr d
                 \<and> FilterBase_deserialize A d = Inl (StdException m))"
    then show "search_reply_push_filters A push reply filters_json filter_state_json error w
          = (Returned, w\<lparr>charps := (charps w)(error := Heap (c_str m))\<rparr>)"
      using loop_bad [OF k] by (simp add: defs)
  next
    assume "deserialize_json A (from_gostring w filters_json) = Inr filters_var"
      "deserialize_json A (from_gostring w filter_state_json) = Inr filter_state_var"
      "get_array A filters_var = Inr arr"
      and l: "length fs = length arr"
      "\<forall>i<length arr. \<exists>d. get_dict A (arr ! i) = Inr d
                             \<and> FilterBase_deserialize A d = Inr (fs ! i)"
      and "get_dict A filter_state_var = Inl (StdException m)"
    then show "search_reply_push_filters A push reply filters_json filter_state_json error w
          = (Returned, w\<lparr>charps := (charps w)(error := Heap (c_str m))\<rparr>)"
      using loop_ok [OF l] by (simp add: defs)
  next
    assume "deserialize_json A (from_gostring w filters_json) = Inr filters_var"
      "deserialize_json A (from_gostring w filter_state_json) = Inr filter_state_var"
      "get_array A filters_var = Inr arr"
      and l: "length fs = length arr"
      "\<forall>i<length arr. \<exists>d. get_dict A (arr ! i) = Inr d
                             \<and> FilterBase_deserialize A d = Inr (fs ! i)"
      and "get_dict A filter_state_var = Inr sd"
      "FilterState_deserialize A sd = Inl (StdException m)"
    then show "search_reply_push_filters A push reply filters_json filter_state_json error w
          = (Returned, w\<lparr>charps := (charps w)(error := Heap (c_str m))\<rparr>)"
      using loop_ok [OF l] by (simp add: defs)
  next
    assume "deserialize_json A (from_gostring w filters_json) = Inr filters_var"
      "deserialize_json A (from_gostring w filter_state_json) = Inr filter_state_var"
      "get_array A filters_var = Inr arr"
      and l: "length fs = length arr"
      "\<forall>i<length arr. \<exists>d. get_dict A (arr ! i) = Inr d
                             \<and> FilterBase_deserialize A d = Inr (fs ! i)"
      and "get_dict A filter_state_var = Inr sd"
      "FilterState_deserialize A sd = Inr st"
    then show "search_reply_push_filters A push reply filters_json filter_state_json error w
          = try_catch error (invoke (push fs st) reply w)"
      using loop_ok [OF l] by (simp add: defs)
  qed
qed


lemma demo_strict_api_simps:
  "deserialize_json demo_strict_api = demo_parse_json"
  "get_array demo_strict_api = demo_get_array"
  "get_dict demo_strict_api = demo_get_dict"
  "FilterBase_deserialize demo_strict_api = demo_filter"
  "FilterState_deserialize demo_strict_api = demo_filter_state"
  by (simp_all add: demo_strict_api_def)

lemma demo_parse_json_simps:
  "demo_parse_json ''nope!'' = Inl (StdException ''parse error'')"
  "demo_parse_json ''{f2:1}'' = Inr (DDict ''f2'')"
  "demo_parse_json ''[{id:f1},{id:f3}]'' = Inr (DArray [DDict ''f1'', DDict ''f3''])"
  "demo_parse_json ''[{id:f1},[],{id:f3}]''
     = Inr (DArray [DDict ''f1'', DArray [], DDict ''f3''])"
  "demo_parse_json ''[{id:f1},{id:bad}]'' = Inr (DArray [DDict ''f1'', DDict ''bad''])"
  "demo_parse_json ''{bad:1}'' = Inr (DDict ''bad'')"
  by (simp_all add: demo_parse_json_def)

lemma demo_two_filters:
  "length [''f1'', ''f3''] = length [DDict ''f1'', DDict ''f3'']
   \<and> (\<forall>i<length [DDict ''f1'', DDict ''f3''].
         \<exists>d. get_dict demo_strict_api ([DDict ''f1'', DDict ''f3''] ! i) = Inr d
            \<and> FilterBase_deserialize demo_strict_api d = Inr ([''f1'', ''f3''] ! i))"
  by (auto simp: demo_strict_api_simps demo_filter_def less_Suc_eq)

theorem filter_push_decodes_then_pushes_once_witness:
  "search_reply_push_filters demo_strict_api recording_pair 0 11 6 5
       (demo_world [] :: ((string list \<times> string) list, unit) world)
     = (Returned, (demo_world [] :: ((string list \<times> string) list, unit) world)
                    \<lparr>charps := (\<lambda>_. Wild 7)(5 := Heap ''parse error'')\<rparr>)
   \<and> search_reply_push_filters demo_strict_api recording_pair 0 12 11 5
       (demo_world [] :: ((string list \<times> string) list, unit) world)
     = (Returned, (demo_world [] :: ((string list \<times> string) list, unit) world)
                    \<lparr>charps := (\<lambda>_. Wild 7)(5 := Heap ''parse error'')\<rparr>)
   \<and> search_reply_push_filters demo_strict_api recording_pair 0 6 6 5
       (demo_world [] :: ((string list \<times> string) list, unit) world)
     = (Returned, (demo_world [] :: ((string list \<times> string) list, unit) world)
                    \<lparr>charps := (\<lambda>_. Wild 7)(5 := Heap ''not an array'')\<rparr>)
   \<and> search_reply_push_filters demo_strict_api recording_pair 0 13 6 5
       (demo_world [] :: ((string list \<times> string) list, unit) world)
     = (Returned, (demo_world [] :: ((string list \<times> string) list, unit) world)
                    \<lparr>charps := (\<lambda>_. Wild 7)(5 := Heap ''not a dict'')\<rparr>)
   \<and> search_reply_push_filters demo_strict_api recording_pair 0 14 6 5
       (demo_world [] :: ((string list \<times> string) list, unit) world)
     = (Returned, (demo_world [] :: ((string list \<times> string) list, unit) world)
                    \<lparr>charps := (\<lambda>_. Wild 7)(5 := Heap ''unknown filter'')\<rparr>)
   \<and> search_reply_push_filters demo_strict_api recording_pair 0 12 12 5
       (demo_world [] :: ((string list \<times> string) list, unit) world)
     = (Returned, (demo_world [] :: ((string list \<times> string) list, unit) world)
                    \<lparr>charps := (\<lambda>_. Wild 7)(5 := Heap ''not a dict'')\<rparr>)
   \<and> search_reply_push_filters demo_strict_api recording_pair 0 12 15 5
       (demo_world [] :: ((string list \<times> string) list, unit) world)
     = (Returned, (demo_world [] :: ((string list \<times> string) list, unit) world)
                    \<lparr>charps := (\<lambda>_. Wild 7)(5 := Heap ''bad state'')\<rparr>)
   \<and> search_reply_push_filters demo_strict_api recording_pair 0 12 6 5
       (demo_world [] :: ((string list \<times> string) list, unit) world)
     = (Returned, (demo_world [] :: ((string list \<times> string) list, unit) world)
                    \<lparr>replies := (\<lambda>_. [])(0 := [([''f1'', ''f3''], ''f2'')])\<rparr>)"
proof -
  let ?w = "demo_world [] :: ((string list \<times> string) list, unit) world"
  note t = filter_push_decodes_then_pushes_once
             [where A = demo_strict_api and push = recording_pair and reply = 0
                and error = 5 and w = ?w]
  note ev = demo_strings demo_strict_api_simps demo_parse_json_simps
  have c: "c_str ''parse error'' = ''parse error''" "c_str ''not an array'' = ''not an array''"
    "c_str ''not a dict'' = ''not a dict''" "c_str ''unknown filter'' = ''unknown filter''"
    "c_str ''bad state'' = ''bad state''"
    by (simp_all add: c_str_def)
  have p12: "deserialize_json demo_strict_api (from_gostring ?w 12)
               = Inr (DArray [DDict ''f1'', DDict ''f3''])"
    and p6: "deserialize_json demo_strict_api (from_gostring ?w 6) = Inr (DDict ''f2'')"
    and a12: "get_array demo_strict_api (DArray [DDict ''f1'', DDict ''f3''])
               = Inr [DDict ''f1'', DDict ''f3'']"
    by (simp_all add: ev)

  have h1: "deserialize_json demo_strict_api (from_gostring ?w 11)
              = Inl (StdException ''parse error'')"
    by (simp add: ev)
  have e1: "search_reply_push_filters demo_strict_api recording_pair 0 11 6 5 ?w
     = (Returned, ?w\<lparr>charps := (\<lambda>_. Wild 7)(5 := Heap ''parse error'')\<rparr>)"
    using t [where filters_json = 11 and filter_state_json = 6, THEN conjunct1,
             rule_format, OF h1]
    by (simp add: c demo_fields)

  have h2: "deserialize_json demo_strict_api (from_gostring ?w 12)
              = Inr (DArray [DDict ''f1'', DDict ''f3''])
      \<and> deserialize_json demo_strict_api (from_gostring ?w 11)
              = Inl (StdException ''parse error'')"
    by (simp add: ev)
  have e2: "search_reply_push_filters demo_strict_api recording_pair 0 12 11 5 ?w
     = (Returned, ?w\<lparr>charps := (\<lambda>_. Wild 7)(5 := Heap ''parse error'')\<rparr>)"
    using t [where filters_json = 12 and filter_state_json = 11,
             THEN conjunct2, THEN conjunct1, rule_format, OF h2]
    by (simp add: c demo_fields)

  have h3: "deserialize_json demo_strict_api (from_gostring ?w 6) = Inr (DDict ''f2'')
      \<and> deserialize_json demo_strict_api (from_gostring ?w 6) = Inr (DDict ''f2'')
      \<and> get_array demo_strict_api (DDict ''f2'') = Inl (StdException ''not an array'')"
    by (simp add: ev)
  have e3: "search_reply_push_filters demo_strict_api recording_pair 0 6 6 5 ?w
     = (Returned, ?w\<lparr>charps := (\<lambda>_. Wild 7)(5 := Heap ''not an array'')\<rparr>)"
    using t [where filters_json = 6 and filter_state_json = 6,
             THEN conjunct2, THEN conjunct2, THEN conjunct1, rule_format, OF h3]
    by (simp add: c demo_fields)

  have h4: "deserialize_json demo_strict_api (from_gostring ?w 13)
              = Inr (DArray [DDict ''f1'', DArray [], DDict ''f3''])
      \<and> deserialize_json demo_strict_api (from_gostring ?w 6) = Inr (DDict ''f2'')
      \<and> get_array demo_strict_api (DArray [DDict ''f1'', DArray [], DDict ''f3''])
              = Inr [DDict ''f1'', DArray [], DDict ''f3'']
      \<and> 1 < length [DDict ''f1'', DArray [], DDict ''f3'']
      \<and> (\<forall>i<1. \<exists>d x. get_dict demo_strict_api
                           ([DDict ''f1'', DArray [], DDict ''f3''] ! i) = Inr d
                       \<and> FilterBase_deserialize demo_strict_api d = Inr x)
      \<and> (get_dict demo_strict_api ([DDict ''f1'', DArray [], DDict ''f3''] ! 1)
              = Inl (StdException ''not a dict'')
           \<or> (\<exists>d. get_dict demo_strict_api ([DDict ''f1'', DArray [], DDict ''f3''] ! 1)
                      = Inr d
                 \<and> FilterBase_deserialize demo_strict_api d
                      = Inl (StdException ''not a dict'')))"
    by (simp add: ev demo_filter_def)
  have e4: "search_reply_push_filters demo_strict_api recording_pair 0 13 6 5 ?w
     = (Returned, ?w\<lparr>charps := (\<lambda>_. Wild 7)(5 := Heap ''not a dict'')\<rparr>)"
    using t [where filters_json = 13 and filter_state_json = 6,
             THEN conjunct2, THEN conjunct2, THEN conjunct2, THEN conjunct1,
             rule_format, OF h4]
    by (simp add: c demo_fields)

  have h5: "deserialize_json demo_strict_api (from_gostring ?w 14)
              = Inr (DArray [DDict ''f1'', DDict ''bad''])
      \<and> deserialize_json demo_strict_api (from_gostring ?w 6) = Inr (DDict ''f2'')
      \<and> get_array demo_strict_api (DArray [DDict ''f1'', DDict ''bad''])
              = Inr [DDict ''f1'', DDict ''bad'']
      \<and> 1 < length [DDict ''f1'', DDict ''bad'']
      \<and> (\<forall>i<1. \<exists>d x. get_dict demo_strict_api ([DDict ''f1'', DDict ''bad''] ! i) = Inr d
                       \<and> FilterBase_deserialize demo_strict_api d = Inr x)
      \<and> (get_dict demo_strict_api ([DDict ''f1'', DDict ''bad''] ! 1)
              = Inl (StdException ''unknown filter'')
           \<or> (\<exists>d. get_dict demo_strict_api ([DDict ''f1'', DDict ''bad''] ! 1) = Inr d
                 \<and> FilterBase_deserialize demo_strict_api d
                      = Inl (StdException ''unknown filter'')))"
    by (simp add: ev demo_filter_def)
  have e5: "search_reply_push_filters demo_strict_api recording_pair 0 14 6 5 ?w
     = (Returned, ?w\<lparr>charps := (\<lambda>_. Wild 7)(5 := Heap ''unknown filter'')\<rparr>)"
    using t [where filters_json = 14 and filter_state_json = 6,
             THEN conjunct2, THEN conjunct2, THEN conjunct2, THEN conjunct1,
             rule_format, OF h5]
    by (simp add: c demo_fields)

  have h6: "deserialize_json demo_strict_api (from_gostring ?w 12)
              = Inr (DArray [DDict ''f1'', DDict ''f3''])
      \<and> deserialize_json demo_strict_api (from_gostring ?w 12)
              = Inr (DArray [DDict ''f1'', DDict ''f3''])
      \<and> get_array demo_strict_api (DArray [DDict ''f1'', DDict ''f3''])
              = Inr [DDict ''f1'', DDict ''f3'']
      \<and> length [''f1'', ''f3''] = length [DDict ''f1'', DDict ''f3'']
      \<and> (\<forall>i<length [DDict ''f1'', DDict ''f3''].
            \<exists>d. get_dict demo_strict_api ([DDict ''f1'', DDict ''f3''] ! i) = Inr d
               \<and> FilterBase_deserialize demo_strict_api d = Inr ([''f1'', ''f3''] ! i))
      \<and> get_dict demo_strict_api (DArray [DDict ''f1'', DDict ''f3''])
              = Inl (StdException ''not a dict'')"
    using p12 a12 demo_two_filters by (simp add: demo_strict_api_simps)
  have e6: "search_reply_push_filters demo_strict_api recording_pair 0 12 12 5 ?w
     = (Returned, ?w\<lparr>charps := (\<lambda>_. Wild 7)(5 := Heap ''not a dict'')\<rparr>)"
    using t [where filters_json = 12 and filter_state_json = 12,
             THEN conjunct2, THEN conjunct2, THEN conjunct2, THEN conjunct2,
             THEN conjunct1, rule_format, OF h6]
    by (simp add: c demo_fields)

  have p15: "deserialize_json demo_strict_api (from_gostring ?w 15) = Inr (DDict ''bad'')"
    by (simp add: ev)
  have h7: "deserialize_json demo_strict_api (from_gostring ?w 12)
              = Inr (DArray [DDict ''f1'', DDict ''f3''])
      \<and> deserialize_json demo_strict_api (from_gostring ?w 15) = Inr (DDict ''bad'')
      \<and> get_array demo_strict_api (DArray [DDict ''f1'', DDict ''f3''])
              = Inr [DDict ''f1'', DDict ''f3'']
      \<and> length [''f1'', ''f3''] = length [DDict ''f1'', DDict ''f3'']
      \<and> (\<forall>i<length [DDict ''f1'', DDict ''f3''].
            \<exists>d. get_dict demo_strict_api ([DDict ''f1'', DDict ''f3''] ! i) = Inr d
               \<and> FilterBase_deserialize demo_strict_api d = Inr ([''f1'', ''f3''] ! i))
      \<and> get_dict demo_strict_api (DDict ''bad'') = Inr ''bad''
      \<and> FilterState_deserialize demo_strict_api ''bad'' = Inl (StdException ''bad state'')"
    using p12 p15 a12 demo_two_filters
    by (simp add: demo_strict_api_simps demo_filter_state_def)
  have e7: "search_reply_push_filters demo_strict_api recording_pair 0 12 15 5 ?w
     = (Returned, ?w\<lparr>charps := (\<lambda>_. Wild 7)(5 := Heap ''bad state'')\<rparr>)"
    using t [where filters_json = 12 and filter_state_json = 15,
             THEN conjunct2, THEN conjunct2, THEN conjunct2, THEN conjunct2,
             THEN conjunct2, THEN conjunct1, rule_format, OF h7]
    by (simp add: c demo_fields)

  have h8: "deserialize_json demo_strict_api (from_gostring ?w 12)
              = Inr (DArray [DDict ''f1'', DDict ''f3''])
      \<and> deserialize_json demo_strict_api (from_gostring ?w 6) = Inr (DDict ''f2'')
      \<and> get_array demo_strict_api (DArray [DDict ''f1'', DDict ''f3''])
              = Inr [DDict ''f1'', DDict ''f3'']
      \<and> length [''f1'', ''f3''] = length [DDict ''f1'', DDict ''f3'']
      \<and> (\<forall>i<length [DDict ''f1'', DDict ''f3''].
            \<exists>d. get_dict demo_strict_api ([DDict ''f1'', DDict ''f3''] ! i) = Inr d
               \<and> FilterBase_deserialize demo_strict_api d = Inr ([''f1'', ''f3''] ! i))
      \<and> get_dict demo_strict_api (DDict ''f2'') = Inr ''f2''
      \<and> FilterState_deserialize demo_strict_api ''f2'' = Inr ''f2''"
    using p12 p6 a12 demo_two_filters
    by (simp add: demo_strict_api_simps demo_filter_state_def)
  have e8: "search_reply_push_filters demo_strict_api recording_pair 0 12 6 5 ?w
     = (Returned, ?w\<lparr>replies := (\<lambda>_. [])(0 := [([''f1'', ''f3''], ''f2'')])\<rparr>)"
    using t [where filters_json = 12 and filter_state_json = 6,
             THEN conjunct2, THEN conjunct2, THEN conjunct2, THEN conjunct2,
             THEN conjunct2, THEN conjunct2, rule_format, OF h8]
    by (simp add: invoke_def get_ptr_def recording_pair_def try_catch_None demo_fields)
  from e1 e2 e3 e4 e5 e6 e7 e8 show ?thesis by simp
qed

text \<open>
  Claim C8. The filter definitions are decoded from the first text alone, element by
  element, and the filter state from the second text alone; nothing compares the two.
  Whenever each text decodes, element \<open>i\<close> of the array giving the filter \<open>fs ! i\<close>
  and the dictionary giving the state \<open>st\<close>, the native push receives exactly the list
  \<open>fs\<close>, in the order of the array, and \<open>st\<close>, whatever ids they carry.
\<close>

theorem filter_push_does_not_relate_state_to_filters:
  assumes "deserialize_json A (from_gostring w filters_json) = Inr filters_var"
    and "get_array A filters_var = Inr arr"
    and "length fs = length arr"
    and "\<forall>i<length arr. \<exists>d. get_dict A (arr ! i) = Inr d
                             \<and> FilterBase_deserialize A d = Inr (fs ! i)"
    and "deserialize_json A (from_gostring w filter_state_json) = Inr filter_state_var"
    and "get_dict A filter_state_var = Inr sd"
    and "FilterState_deserialize A sd = Inr st"
  shows "search_reply_push_filters A push reply filters_json filter_state_json error w
           = try_catch error (invoke (push fs st) reply w)"
proof -
  from filters_loop_all [OF assms(3,4), of "[]"]
  have "filters_loop A arr [] = Inr fs" by simp
  with assms show ?thesis
    by (simp add: search_reply_push_filters_def search_reply_push_filters_body_def
        decode_filters_def)
qed

theorem filter_push_does_not_relate_state_to_filters_witness:
  "fst (search_reply_push_filters demo_strict_api recording_pair 0 12 6 5
       (demo_world [] :: ((string list \<times> string) list, unit) world)) = Returned
   \<and> replies (snd (search_reply_push_filters demo_strict_api recording_pair 0 12 6 5
       (demo_world [] :: ((string list \<times> string) list, unit) world))) 0
       = [([''f1'', ''f3''], ''f2'')]
   \<and> charps (snd (search_reply_push_filters demo_strict_api recording_pair 0 12 6 5
       (demo_world [] :: ((string list \<times> string) list, unit) world))) 5 = Wild 7"
proof -
  let ?w = "demo_world [] :: ((string list \<times> string) list, unit) world"
  note ev = demo_strings demo_strict_api_simps demo_parse_json_simps
  have a1: "deserialize_json demo_strict_api (from_gostring ?w 12)
              = Inr (DArray [DDict ''f1'', DDict ''f3''])"
    by (simp add: ev)
  have a2: "get_array demo_strict_api (DArray [DDict ''f1'', DDict ''f3''])
              = Inr [DDict ''f1'', DDict ''f3'']"
    by (simp add: ev)
  note a3 = demo_two_filters [THEN conjunct1]
  note a4 = demo_two_filters [THEN conjunct2]
  have a5: "deserialize_json demo_strict_api (from_gostring ?w 6) = Inr (DDict ''f2'')"
    by (simp add: ev)
  have a6: "get_dict demo_strict_api (DDict ''f2'') = Inr ''f2''"
    by (simp add: ev)
  have a7: "FilterState_deserialize demo_strict_api ''f2'' = Inr ''f2''"
    by (simp add: ev demo_filter_state_def)
  from filter_push_does_not_relate_state_to_filters
         [where push = recording_pair and reply = 0 and error = 5, OF a1 a2 a3 a4 a5 a6 a7]
  show ?thesis
    by (simp add: invoke_def get_ptr_def recording_pair_def try_catch_None demo_fields)
qed

section \<open>Registering a category\<close>

text \<open>
  Claim C5. With an empty template text the native \<open>register_category\<close> receives the
  default-constructed renderer; with a non-empty one it receives the renderer that
  the constructor builds from exactly that text. In both cases the id, title and icon
  are the caller's strings, and the category that the native call returns is stored
  in the \<open>category\<close> handle.
\<close>

theorem register_category_picks_renderer:
  "(from_gostring w cat_template = []
      \<and> register_category (from_gostring w cat_id) (from_gostring w title)
            (from_gostring w icon) default_renderer (get_ptr w reply) = (Inr cat, c')
    \<longrightarrow> search_reply_register_category default_renderer CategoryRenderer register_category
            reply cat_id title icon cat_template category w
          = (Returned, w\<lparr>replies := (replies w)(reply := c'),
                         categories := (categories w)(category := Some cat)\<rparr>))
   \<and> (from_gostring w cat_template \<noteq> []
      \<and> CategoryRenderer (from_gostring w cat_template) = Inr ren
      \<and> register_category (from_gostring w cat_id) (from_gostring w title)
            (from_gostring w icon) ren (get_ptr w reply) = (Inr cat, c')
    \<longrightarrow> search_reply_register_category default_renderer CategoryRenderer register_category
            reply cat_id title icon cat_template category w
          = (Returned, w\<lparr>replies := (replies w)(reply := c'),
                         categories := (categories w)(category := Some cat)\<rparr>))"
  by (simp add: search_reply_register_category_def)

theorem register_category_picks_renderer_witness:
  "categories (snd (search_reply_register_category ''DEFAULT'' demo_renderer demo_register
        0 7 8 9 9 1 (demo_world [] :: ((string \<times> string) list, string \<times> string) world))) 1
      = Some (''sports'', ''DEFAULT'')
   \<and> replies (snd (search_reply_register_category ''DEFAULT'' demo_renderer demo_register
        0 7 8 9 9 1 (demo_world [] :: ((string \<times> string) list, string \<times> string) world))) 0
      = [(''sports'', ''DEFAULT'')]
   \<and> categories (snd (search_reply_register_category ''DEFAULT'' demo_renderer demo_register
        0 7 8 9 10 1 (demo_world [] :: ((string \<times> string) list, string \<times> string) world))) 1
      = Some (''sports'', ''{grid}'')
   \<and> replies (snd (search_reply_register_category ''DEFAULT'' demo_renderer demo_register
        0 7 8 9 10 1 (demo_world [] :: ((string \<times> string) list, string \<times> string) world))) 0
      = [(''sports'', ''{grid}'')]"
proof -
  let ?w = "demo_world [] :: ((string \<times> string) list, string \<times> string) world"
  have h1: "from_gostring ?w 9 = []
      \<and> demo_register (from_gostring ?w 7) (from_gostring ?w 8) (from_gostring ?w 9)
            ''DEFAULT'' (get_ptr ?w 0)
          = (Inr (''sports'', ''DEFAULT''), [(''sports'', ''DEFAULT'')])"
    by (simp add: demo_strings demo_register_def get_ptr_def demo_fields)
  have h2: "from_gostring ?w 10 \<noteq> []
      \<and> demo_renderer (from_gostring ?w 10) = Inr ''{grid}''
      \<and> demo_register (from_gostring ?w 7) (from_gostring ?w 8) (from_gostring ?w 9)
            ''{grid}'' (get_ptr ?w 0)
          = (Inr (''sports'', ''{grid}''), [(''sports'', ''{grid}'')])"
    by (simp add: demo_strings demo_register_def demo_renderer_def get_ptr_def demo_fields)
  have e1: "search_reply_register_category ''DEFAULT'' demo_renderer demo_register
              0 7 8 9 9 1 ?w
            = (Returned, ?w\<lparr>replies := (replies ?w)(0 := [(''sports'', ''DEFAULT'')]),
                 categories := (categories ?w)(1 := Some (''sports'', ''DEFAULT''))\<rparr>)"
    by (rule register_category_picks_renderer
          [where register_category = demo_register and w = ?w,
           THEN conjunct1, rule_format, OF h1])
  have e2: "search_reply_register_category ''DEFAULT'' demo_renderer demo_register
              0 7 8 9 10 1 ?w
            = (Returned, ?w\<lparr>replies := (replies ?w)(0 := [(''sports'', ''{grid}'')]),
                 categories := (categories ?w)(1 := Some (''sports'', ''{grid}''))\<rparr>)"
    by (rule register_category_picks_renderer
          [where register_category = demo_register and w = ?w
             and CategoryRenderer = demo_renderer,
           THEN conjunct2, rule_format, OF h2])
  from e1 e2 show ?thesis by simp
qed

section \<open>The error cell on success\<close>

text \<open>
  Claim C9. In each of the four operations with a \<^verbatim>\<open>char **error\<close> argument, when the
  body completes without an exception the function returns the world the body left,
  and in it every \<^verbatim>\<open>char *\<close> cell, the one \<open>error\<close> points to included, holds what it
  held before the call. The cell tells the caller of a failure only if the caller
  set it beforehand.
\<close>

theorem error_cell_unchanged_on_success:
  "(search_reply_push_body push reply result w = (None, w1)
      \<longrightarrow> search_reply_push push reply result error w = (Returned, w1)
          \<and> charps w1 = charps w)
   \<and> (search_reply_push_filters_body A pushf reply filters_json filter_state_json w
        = (None, w2)
      \<longrightarrow> search_reply_push_filters A pushf reply filters_json filter_state_json error w
            = (Returned, w2)
          \<and> charps w2 = charps w)
   \<and> (preview_reply_push_widgets_body P pushw reply gostring_array count w = (None, w3)
      \<longrightarrow> preview_reply_push_widgets P pushw reply gostring_array count error w
            = (Returned, w3)
          \<and> charps w3 = charps w)
   \<and> (preview_reply_push_attr_body D pusha reply key json_value w = (None, w4)
      \<longrightarrow> preview_reply_push_attr D pusha reply key json_value error w = (Returned, w4)
          \<and> charps w4 = charps w)"
proof (intro conjI impI)
  assume b: "search_reply_push_body push reply result w = (None, w1)"
  then show "search_reply_push push reply result error w = (Returned, w1)"
    by (simp add: search_reply_push_def try_catch_None)
  from charps_push_body [of push reply result w] b show "charps w1 = charps w" by simp
next
  assume b: "search_reply_push_filters_body A pushf reply filters_json filter_state_json w
        = (None, w2)"
  then show "search_reply_push_filters A pushf reply filters_json filter_state_json error w
            = (Returned, w2)"
    by (simp add: search_reply_push_filters_def try_catch_None)
  from charps_push_filters_body [of A pushf reply filters_json filter_state_json w] b
  show "charps w2 = charps w" by simp
next
  assume b: "preview_reply_push_widgets_body P pushw reply gostring_array count w = (None, w3)"
  then show "preview_reply_push_widgets P pushw reply gostring_array count error w
            = (Returned, w3)"
    by (simp add: preview_reply_push_widgets_def try_catch_None)
  from charps_push_widgets_body [of P pushw reply gostring_array count w] b
  show "charps w3 = charps w" by simp
next
  assume b: "preview_reply_push_attr_body D pusha reply key json_value w = (None, w4)"
  then show "preview_reply_push_attr D pusha reply key json_value error w = (Returned, w4)"
    by (simp add: preview_reply_push_attr_def try_catch_None)
  from charps_push_attr_body [of D pusha reply key json_value w] b
  show "charps w4 = charps w" by simp
qed

lemma demo_widgets_loop:
  "widgets_loop demo_widget (demo_world c) 1 3 0 [] = Inr [''W1'', ''W2'', ''W3'']"
proof -
  have s: "from_gostring (demo_world c) (Suc 0) = ''W1''"
    "from_gostring (demo_world c) (Suc (Suc 0)) = ''W2''"
    "from_gostring (demo_world c) (Suc (Suc (Suc 0))) = ''W3''"
    using demo_strings(2-4) [of c] by (simp_all add: numeral_2_eq_2 numeral_3_eq_3)
  show ?thesis
    by (simp add: widgets_loop.simps std_string_gostring demo_widget_def s)
qed

theorem error_cell_unchanged_on_success_witness:
  "search_reply_push recording 0 ''Match A'' 5 (demo_world [] :: (string list, unit) world)
     = (Returned, (demo_world [] :: (string list, unit) world)
                    \<lparr>replies := (\<lambda>_. [])(0 := [''Match A''])\<rparr>)
   \<and> charps (snd (search_reply_push recording 0 ''Match A'' 5
                    (demo_world [] :: (string list, unit) world))) 5 = Wild 7
   \<and> charps (snd (search_reply_push_filters demo_api recording_pair 0 5 6 5
       (demo_world [] :: ((string list \<times> string) list, unit) world))) 5 = Wild 7
   \<and> charps (snd (preview_reply_push_widgets demo_widget recording 0 1 3 5
       (demo_world [] :: (string list list, unit) world))) 5 = Wild 7
   \<and> charps (snd (preview_reply_push_attr demo_deserialize_json recording_pair 0 7 6 5
       (demo_world [] :: ((string \<times> demo_variant) list, unit) world))) 5 = Wild 7"
proof -
  let ?w = "demo_world [] :: (string list, unit) world"
  let ?w1 = "?w\<lparr>replies := (\<lambda>_. [])(0 := [''Match A''])\<rparr>"
  have b1: "search_reply_push_body recording 0 ''Match A'' ?w = (None, ?w1)"
    by (simp add: search_reply_push_body_def invoke_def get_ptr_def recording_def demo_fields)
  note e1 = error_cell_unchanged_on_success [THEN conjunct1, rule_format, OF b1, of 5]
  let ?v = "demo_world [] :: ((string list \<times> string) list, unit) world"
  let ?v1 = "?v\<lparr>replies := (\<lambda>_. [])(0 := [([''f1''], ''f2'')])\<rparr>"
  have b2: "search_reply_push_filters_body demo_api recording_pair 0 5 6 ?v = (None, ?v1)"
    by (simp add: search_reply_push_filters_body_def decode_filters_def demo_api_def
        demo_deserialize_json_def demo_strings invoke_def get_ptr_def recording_pair_def
        demo_fields)
  note e2 = error_cell_unchanged_on_success
              [THEN conjunct2, THEN conjunct1, rule_format, OF b2, of 5]
  let ?u = "demo_world [] :: (string list list, unit) world"
  let ?u1 = "?u\<lparr>replies := (\<lambda>_. [])(0 := [[''W1'', ''W2'', ''W3'']])\<rparr>"
  have b3: "preview_reply_push_widgets_body demo_widget recording 0 1 3 ?u = (None, ?u1)"
    unfolding preview_reply_push_widgets_body_def demo_widgets_loop
    by (simp add: invoke_def get_ptr_def recording_def demo_fields)
  note e3 = error_cell_unchanged_on_success
              [THEN conjunct2, THEN conjunct2, THEN conjunct1, rule_format, OF b3, of 5]
  let ?t = "demo_world [] :: ((string \<times> demo_variant) list, unit) world"
  let ?t1 = "?t\<lparr>replies := (\<lambda>_. [])(0 := [(''sports'', DDict ''f2'')])\<rparr>"
  have b4: "preview_reply_push_attr_body demo_deserialize_json recording_pair 0 7 6 ?t
              = (None, ?t1)"
    by (simp add: preview_reply_push_attr_body_def demo_deserialize_json_def demo_strings
        invoke_def get_ptr_def recording_pair_def demo_fields)
  note e4 = error_cell_unchanged_on_success
              [THEN conjunct2, THEN conjunct2, THEN conjunct2, rule_format, OF b4, of 5]
  have cp: "charps ?w = (\<lambda>_. Wild 7)" "charps ?v = (\<lambda>_. Wild 7)"
    "charps ?u = (\<lambda>_. Wild 7)" "charps ?t = (\<lambda>_. Wild 7)"
    by (simp_all add: demo_fields)
  from e1 e2 e3 e4 show ?thesis by (simp add: cp)
qed

section \<open>The widget loop\<close>

lemma widgets_loop_done:
  "\<not> i < count \<Longrightarrow> widgets_loop P w a count i acc = Inr acc"
  by (simp add: widgets_loop.simps)

lemma widgets_loop_step:
  "i < count \<Longrightarrow> 0 \<le> i \<Longrightarrow> P (from_gostring w (a + nat i)) = Inr x \<Longrightarrow>
   widgets_loop P w a count i acc = widgets_loop P w a count (i + 1) (acc @ [x])"
  by (subst widgets_loop.simps) (simp add: std_string_gostring)

lemma widgets_loop_fail:
  "i < count \<Longrightarrow> P (from_gostring w (a + nat i)) = Inl e \<Longrightarrow>
   widgets_loop P w a count i acc = Inl e"
  by (subst widgets_loop.simps) (simp add: std_string_gostring)

lemma widgets_loop_builds:
  assumes len: "length ws = n"
    and each: "\<forall>j<n. P (from_gostring w (a + j)) = Inr (ws ! j)"
  shows "k \<le> n \<Longrightarrow> widgets_loop P w a (int n) (int k) acc = Inr (acc @ drop k ws)"
proof (induction "n - k" arbitrary: k acc)
  case 0
  then have "k = n" by simp
  with len show ?case by (simp add: widgets_loop_done)
next
  case (Suc d)
  then have lt: "k < n" by simp
  with each have px: "P (from_gostring w (a + nat (int k))) = Inr (ws ! k)" by simp
  from lt have "widgets_loop P w a (int n) (int k) acc
      = widgets_loop P w a (int n) (int k + 1) (acc @ [ws ! k])"
    using px by (intro widgets_loop_step) simp_all
  also have "int k + 1 = int (Suc k)" by simp
  also have "widgets_loop P w a (int n) (int (Suc k)) (acc @ [ws ! k])
      = Inr ((acc @ [ws ! k]) @ drop (Suc k) ws)"
    using Suc.hyps lt by (intro Suc.hyps(1)) simp_all
  also have "(acc @ [ws ! k]) @ drop (Suc k) ws = acc @ drop k ws"
    using lt len by (simp add: Cons_nth_drop_Suc)
  finally show ?case .
qed

lemma widgets_loop_Inr:
  "widgets_loop P w a count i acc = Inr ws \<Longrightarrow> 0 \<le> i \<Longrightarrow>
   length ws = length acc + nat (count - i) \<and> take (length acc) ws = acc \<and>
   (\<forall>j. nat i \<le> j \<and> j < nat count \<longrightarrow>
        P (from_gostring w (a + j)) = Inr (ws ! (length acc + (j - nat i))))"
proof (induction P w a count i acc rule: widgets_loop.induct)
  case (1 P w a count i acc)
  show ?case
  proof (cases "i < count")
    case False
    with "1.prems" show ?thesis by (auto simp: widgets_loop_done)
  next
    case True
    show ?thesis
    proof (cases "P (from_gostring w (a + nat i))")
      case (Inl e)
      with True "1.prems" show ?thesis by (simp add: widgets_loop_fail)
    next
      case (Inr x)
      with True "1.prems" have rec: "widgets_loop P w a count (i + 1) (acc @ [x]) = Inr ws"
        by (simp add: widgets_loop_step)
      from Inr have px: "P (std_string w (str_p (gostrings w (a + nat i)))
                              (str_n (gostrings w (a + nat i)))) = Inr x"
        by (simp add: std_string_gostring)
      from "1.IH" [OF True px rec] "1.prems"(2)
      have len: "length ws = Suc (length acc) + nat (count - (i + 1))"
        and tk: "take (Suc (length acc)) ws = acc @ [x]"
        and rest: "\<forall>j. nat (i + 1) \<le> j \<and> j < nat count \<longrightarrow>
                    P (from_gostring w (a + j)) = Inr (ws ! (Suc (length acc) + (j - nat (i + 1))))"
        by simp_all
      from len True "1.prems"(2) have len': "length ws = length acc + nat (count - i)"
        by (simp add: nat_diff_distrib) 
      have "take (length acc) ws = take (length acc) (take (Suc (length acc)) ws)"
        by (simp add: min_def)
      also have "\<dots> = acc" by (simp add: tk)
      finally have tk': "take (length acc) ws = acc" .
      have "ws ! length acc = take (Suc (length acc)) ws ! length acc" by simp
      also have "\<dots> = x" by (simp add: tk)
      finally have at: "ws ! length acc = x" .
      have "P (from_gostring w (a + j)) = Inr (ws ! (length acc + (j - nat i)))"
        if j: "nat i \<le> j \<and> j < nat count" for j
      proof (cases "j = nat i")
        case True
        with Inr at show ?thesis by simp
      next
        case False
        with j "1.prems"(2) have "nat (i + 1) \<le> j \<and> j < nat count" by auto
        with rest have "P (from_gostring w (a + j))
            = Inr (ws ! (Suc (length acc) + (j - nat (i + 1))))"
          by blast
        moreover from False j "1.prems"(2)
        have "Suc (length acc) + (j - nat (i + 1)) = length acc + (j - nat i)"
          by auto
        ultimately show ?thesis by (simp only:)
      qed
      with len' tk' show ?thesis by blast
    qed
  qed
qed


lemma widgets_loop_all:
  assumes "length ws = n"
    and "\<forall>j<n. P (from_gostring w (a + j)) = Inr (ws ! j)"
  shows "widgets_loop P w a (int n) 0 [] = Inr ws"
  using widgets_loop_builds [OF assms, of 0 "[]"] by simp

text \<open>
  Claim C6. Given \<open>n\<close> descriptors in the array, the \<open>i\<close>-th of which the native
  constructor turns into the widget \<open>ws ! i\<close>, the native push is called once, with
  exactly the list \<open>ws\<close>: \<open>n\<close> widgets, in the order of the array. What the consumer
  then observes is the native push's doing; on the channel of the specification it
  is the three widgets in order and, after \<open>finished\<close>, the finished signal.
\<close>

theorem widgets_pushed_in_array_order:
  assumes "length ws = n"
    and "\<forall>i<n. PreviewWidget_ctor (from_gostring w (gostring_array + i)) = Inr (ws ! i)"
  shows "preview_reply_push_widgets PreviewWidget_ctor push reply gostring_array (int n) error w
           = try_catch error (invoke (push ws) reply w)"
  using widgets_loop_all [OF assms]
  by (simp add: preview_reply_push_widgets_def preview_reply_push_widgets_body_def)

theorem widgets_pushed_in_array_order_witness:
  "sent (get_ptr (snd (preview_reply_finished channel_finished 0
           (snd (preview_reply_push_widgets demo_widget channel_push_list 0 1 3 5
                   (demo_world open_channel :: (string channel, unit) world))))) 0)
     = [Transmitted ''W1'', Transmitted ''W2'', Transmitted ''W3'', FinishedSignal]"
proof -
  let ?w = "demo_world open_channel :: (string channel, unit) world"
  let ?ws = "[''W1'', ''W2'', ''W3'']"
  have len: "length ?ws = 3" by simp
  have each: "\<forall>i<3. demo_widget (from_gostring ?w (1 + i)) = Inr (?ws ! i)"
    using demo_strings(2-4) [of open_channel]
    by (auto simp: demo_widget_def less_Suc_eq numeral_3_eq_3 numeral_2_eq_2)
  from widgets_pushed_in_array_order [OF len each, of channel_push_list 0 5]
  have "preview_reply_push_widgets demo_widget channel_push_list 0 1 3 5 ?w
          = try_catch 5 (invoke (channel_push_list ?ws) 0 ?w)"
    by simp
  then show ?thesis
    by (simp add: invoke_def get_ptr_def channel_push_list_def channel_finished_def
        open_channel_def demo_fields try_catch_None preview_reply_finished_def uncaught_def)
qed

text \<open>
  Claim C10. With \<open>count = 0\<close> the loop body never runs and the native push is still
  called, with the empty list. For any \<open>count\<close>, when the constructor accepts each of
  the first \<open>count\<close> array elements, the loop builds exactly \<open>count\<close> widgets, the
  \<open>i\<close>-th from the string that the pointer and the length of element \<open>i\<close> describe,
  and the native push receives that list. A loop that completes has never built more
  or fewer than \<open>count\<close> widgets.
\<close>

theorem widget_push_builds_count_widgets:
  "preview_reply_push_widgets P push reply gostring_array 0 error w
     = try_catch error (invoke (push []) reply w)
   \<and> ((\<forall>i<nat count. \<exists>x.
          P (std_string w (str_p (gostrings w (gostring_array + i)))
                          (str_n (gostrings w (gostring_array + i)))) = Inr x)
      \<longrightarrow> (\<exists>ws. length ws = nat count
            \<and> (\<forall>i<nat count.
                  P (std_string w (str_p (gostrings w (gostring_array + i)))
                                  (str_n (gostrings w (gostring_array + i)))) = Inr (ws ! i))
            \<and> preview_reply_push_widgets P push reply gostring_array count error w
                = try_catch error (invoke (push ws) reply w)))
   \<and> (widgets_loop P w gostring_array count 0 [] = Inr built
      \<longrightarrow> length built = nat count)"
proof (intro conjI impI)
  assume "widgets_loop P w gostring_array count 0 [] = Inr built"
  from widgets_loop_Inr [OF this] show "length built = nat count" by simp
next
  show "preview_reply_push_widgets P push reply gostring_array 0 error w
     = try_catch error (invoke (push []) reply w)"
    by (simp add: preview_reply_push_widgets_def preview_reply_push_widgets_body_def
        widgets_loop_done)
next
  let ?elem = "\<lambda>i. std_string w (str_p (gostrings w (gostring_array + i)))
                                (str_n (gostrings w (gostring_array + i)))"
  assume ok: "\<forall>i<nat count. \<exists>x. P (?elem i) = Inr x"
  define ws where "ws = map (\<lambda>i. projr (P (?elem i))) [0..<nat count]"
  have len: "length ws = nat count" by (simp add: ws_def)
  have each: "\<forall>i<nat count. P (?elem i) = Inr (ws ! i)"
  proof (intro allI impI)
    fix i assume i: "i < nat count"
    with ok obtain x where "P (?elem i) = Inr x" by blast
    with i show "P (?elem i) = Inr (ws ! i)" by (simp add: ws_def)
  qed
  then have each': "\<forall>i<nat count. P (from_gostring w (gostring_array + i)) = Inr (ws ! i)"
    by (simp add: std_string_gostring)
  have loop: "widgets_loop P w gostring_array count 0 [] = Inr ws"
  proof (cases "0 \<le> count")
    case True
    with widgets_loop_all [OF len each'] show ?thesis by simp
  next
    case False
    with len show ?thesis by (simp add: widgets_loop_done)
  qed
  then have "preview_reply_push_widgets P push reply gostring_array count error w
                = try_catch error (invoke (push ws) reply w)"
    by (simp add: preview_reply_push_widgets_def preview_reply_push_widgets_body_def)
  with len each show "\<exists>ws. length ws = nat count
            \<and> (\<forall>i<nat count. P (?elem i) = Inr (ws ! i))
            \<and> preview_reply_push_widgets P push reply gostring_array count error w
                = try_catch error (invoke (push ws) reply w)"
    by blast
qed

theorem widget_push_builds_count_widgets_witness:
  "replies (snd (preview_reply_push_widgets demo_widget recording 0 1 0 5
                  (demo_world [] :: (string list list, unit) world))) 0 = [[]]
   \<and> replies (snd (preview_reply_push_widgets demo_widget recording 0 1 3 5
                  (demo_world [] :: (string list list, unit) world))) 0
       = [[''W1'', ''W2'', ''W3'']]"
proof -
  let ?w = "demo_world [] :: (string list list, unit) world"
  note t = widget_push_builds_count_widgets
             [where P = demo_widget and push = recording and reply = 0
                and gostring_array = 1 and error = 5 and w = ?w and count = 3]
  have e1: "replies (snd (preview_reply_push_widgets demo_widget recording 0 1 0 5 ?w)) 0 = [[]]"
    using t [THEN conjunct1]
    by (simp add: invoke_def get_ptr_def recording_def try_catch_None demo_fields)
  have el: "std_string ?w (str_p (gostrings ?w (1 + i))) (str_n (gostrings ?w (1 + i)))
              = [''W1'', ''W2'', ''W3''] ! i" if "i < 3" for i
    using that demo_strings(2-4) [of "[]"]
    by (auto simp: std_string_gostring less_Suc_eq numeral_3_eq_3 numeral_2_eq_2)
  then have "\<forall>i<nat 3. \<exists>x. demo_widget
        (std_string ?w (str_p (gostrings ?w (1 + i))) (str_n (gostrings ?w (1 + i)))) = Inr x"
    by (simp add: demo_widget_def)
  with t [THEN conjunct2, THEN conjunct1, rule_format]
  obtain ws where len: "length ws = 3"
    and each: "\<forall>i<3. demo_widget
        (std_string ?w (str_p (gostrings ?w (1 + i))) (str_n (gostrings ?w (1 + i))))
          = Inr (ws ! i)"
    and res: "preview_reply_push_widgets demo_widget recording 0 1 3 5 ?w
                = try_catch 5 (invoke (recording ws) 0 ?w)"
    by auto
  from each el have "\<forall>i<3. ws ! i = [''W1'', ''W2'', ''W3''] ! i"
    by (simp add: demo_widget_def)
  with len have "ws = [''W1'', ''W2'', ''W3'']"
    by (intro nth_equalityI) simp_all
  with res have e2: "replies (snd (preview_reply_push_widgets demo_widget recording 0 1 3 5 ?w)) 0
       = [[''W1'', ''W2'', ''W3'']]"
    by (simp add: invoke_def get_ptr_def recording_def try_catch_None demo_fields)
  from e1 e2 show ?thesis by simp
qed

section \<open>The message of an error\<close>

text \<open>
  Claim C7, as the code has it. Whatever characters \<open>msg\<close> the caller's string holds,
  \<open>search_reply_error\<close> and \<open>preview_reply_error\<close> hand the native \<open>error\<close> a
  \<^verbatim>\<open>std::runtime_error\<close> built from exactly \<open>msg\<close>. What that exception shows through
  \<^verbatim>\<open>what()\<close> is \<open>msg\<close> up to its first NUL: all of \<open>msg\<close> when it has none.
\<close>

theorem error_message_reaches_native_error:
  assumes "gostrings w err_string = \<lparr>str_p = a, str_n = length msg\<rparr>"
    and "\<forall>i<length msg. bytes w (a + i) = msg ! i"
  shows "search_reply_error error_fn reply err_string w
           = uncaught (invoke (error_fn (StdException msg)) reply w)
       \<and> preview_reply_error error_fn reply err_string w
           = uncaught (invoke (error_fn (StdException msg)) reply w)
       \<and> what (StdException msg) = takeWhile (\<lambda>c. c \<noteq> CHR 0x00) msg
       \<and> (CHR 0x00 \<notin> set msg \<longrightarrow> what (StdException msg) = msg)"
proof -
  from assms have "from_gostring w err_string = msg"
    by (simp add: from_gostring_def std_string_eq)
  then show ?thesis
    by (simp add: search_reply_error_def preview_reply_error_def runtime_error_def
        c_str_no_nul) (simp add: c_str_def)
qed

theorem error_message_reaches_native_error_witness:
  "replies (snd (search_reply_error recording_what 0 4
                   (demo_world [] :: (string list, unit) world))) 0 = [''backend timeout'']
   \<and> replies (snd (preview_reply_error recording_what 0 4
                   (demo_world [] :: (string list, unit) world))) 0 = [''backend timeout'']"
proof -
  let ?w = "demo_world [] :: (string list, unit) world"
  have g: "gostrings ?w 4 = \<lparr>str_p = 300, str_n = length ''backend timeout''\<rparr>"
    by (simp add: demo_world_def demo_gostrings_def structs_of_def)
  have b: "\<forall>i<length ''backend timeout''. bytes ?w (300 + i) = ''backend timeout'' ! i"
    by (auto simp: demo_world_def demo_bytes_def less_Suc_eq)
  have n: "CHR 0x00 \<notin> set ''backend timeout''" by simp
  from error_message_reaches_native_error [OF g b, of recording_what 0] n
  show ?thesis
    by (simp add: invoke_def get_ptr_def recording_what_def uncaught_def demo_fields)
qed

text \<open>A message with a NUL inside shows only its first part through \<^verbatim>\<open>what()\<close>.\<close>

theorem error_message_cut_at_nul_counterexample:
  "from_gostring (demo_world [] :: (string list, unit) world) 0
     = [CHR ''a'', CHR 0x00, CHR ''b'']
   \<and> replies (snd (search_reply_error recording_what 0 0
                     (demo_world [] :: (string list, unit) world))) 0 = [''a'']"
  by (simp add: search_reply_error_def runtime_error_def invoke_def get_ptr_def
      recording_what_def uncaught_def demo_fields demo_strings c_str_def)

end
